theory Spec2Isabelle
  imports
    Complex_Main
    "HOL-Library.Char_ord"
    "HOL-Library.List_Lexorder"
    "HOL-Library.Product_Lexorder"
    "HOL-Library.Sublist"
    "HOL-Library.Multiset"
begin

section \<open>Data model of the bidding-record service (main.py)\<close>

text \<open>
  The three string enumerations of the source. Each member carries a string value
  (the classes derive from \<open>str\<close> and \<open>Enum\<close>); the \<open>_value\<close> functions below
  give the \<open>.value\<close> attribute. The member \<open>UF.RS\<close> is the constructor \<open>UF_RS\<close>.
\<close>

datatype TipoLicitacao =
  CONVITE | TOMADA_PRECOS | CONCORRENCIA | PREGAO | CONCURSO | LEILAO | RDC | CONSULTA_PUBLICA

datatype StatusLicitacao =
  ABERTA | EM_ANDAMENTO | ENCERRADA | SUSPENSA | CANCELADA

datatype UF =
  AC | AL | AP | AM | BA | CE | DF | ES | GO | MA | MT | MS | MG | PA | PB | PR | PE | PI
  | RJ | RN | UF_RS | RO | RR | SC | SP | SE | TO

fun TipoLicitacao_value :: "TipoLicitacao \<Rightarrow> string" where
  "TipoLicitacao_value CONVITE = ''convite''"
| "TipoLicitacao_value TOMADA_PRECOS = ''tomada_precos''"
| "TipoLicitacao_value CONCORRENCIA = ''concorrencia''"
| "TipoLicitacao_value PREGAO = ''pregao''"
| "TipoLicitacao_value CONCURSO = ''concurso''"
| "TipoLicitacao_value LEILAO = ''leilao''"
| "TipoLicitacao_value RDC = ''rdc''"
| "TipoLicitacao_value CONSULTA_PUBLICA = ''consulta_publica''"

fun StatusLicitacao_value :: "StatusLicitacao \<Rightarrow> string" where
  "StatusLicitacao_value ABERTA = ''aberta''"
| "StatusLicitacao_value EM_ANDAMENTO = ''em_andamento''"
| "StatusLicitacao_value ENCERRADA = ''encerrada''"
| "StatusLicitacao_value SUSPENSA = ''suspensa''"
| "StatusLicitacao_value CANCELADA = ''cancelada''"

fun UF_value :: "UF \<Rightarrow> string" where
  "UF_value AC = ''AC''" | "UF_value AL = ''AL''" | "UF_value AP = ''AP''"
| "UF_value AM = ''AM''" | "UF_value BA = ''BA''" | "UF_value CE = ''CE''"
| "UF_value DF = ''DF''" | "UF_value ES = ''ES''" | "UF_value GO = ''GO''"
| "UF_value MA = ''MA''" | "UF_value MT = ''MT''" | "UF_value MS = ''MS''"
| "UF_value MG = ''MG''" | "UF_value PA = ''PA''" | "UF_value PB = ''PB''"
| "UF_value PR = ''PR''" | "UF_value PE = ''PE''" | "UF_value PI = ''PI''"
| "UF_value RJ = ''RJ''" | "UF_value RN = ''RN''" | "UF_value UF_RS = ''RS''"
| "UF_value RO = ''RO''" | "UF_value RR = ''RR''" | "UF_value SC = ''SC''"
| "UF_value SP = ''SP''" | "UF_value SE = ''SE''" | "UF_value TO = ''TO''"

text \<open>
  A calendar date is the triple (year, month, day); Python compares dates in exactly
  this lexicographic order. A timestamp is one reading of the clock
  (\<open>datetime.now()\<close>); the clock itself is a parameter of whatever reads it.
\<close>

type_synonym date = "nat \<times> nat \<times> nat"
type_synonym datetime = nat

text \<open>
  One bidding record, with the keys of \<open>LicitacaoResponse\<close>. The records handled by
  the filter are dictionaries; every key that the code reads with \<open>l["..."]\<close> is a plain
  field here, and \<open>valor_estimado\<close>, the one key read with \<open>l.get(..., default)\<close>, is
  \<open>None\<close> when the key is absent. Monetary amounts are Python floats, modelled by the
  reals they denote (finite, not NaN). Text is a list of 8-bit characters; text outside
  ASCII is held by its UTF-8 bytes.
\<close>

record licitacao =
  id_licitacao :: int
  numero :: string
  tipo :: TipoLicitacao
  objeto :: string
  orgao :: string
  status :: StatusLicitacao
  valor_estimado :: "real option"
  data_abertura :: date
  data_encerramento :: "date option"
  uf :: UF
  cidade :: string
  modalidade_participacao :: "string option"
  link_edital :: "string option"
  created_at :: datetime
  updated_at :: datetime

text \<open>
  The filter document \<open>FiltrosLicitacao\<close>; the same nine optional criteria are the
  keyword arguments of \<open>filtrar_licitacoes\<close>. The criterion the source calls
  \<open>status\<close> is the field \<open>status_in\<close> here, since a record field of that name exists.
\<close>

record FiltrosLicitacao =
  tipos :: "TipoLicitacao list option"
  status_in :: "StatusLicitacao list option"
  ufs :: "UF list option"
  cidades :: "string list option"
  valor_min :: "real option"
  valor_max :: "real option"
  data_abertura_inicio :: "date option"
  data_abertura_fim :: "date option"
  texto_busca :: "string option"

section \<open>Python primitives used by the code\<close>

text \<open>
  \<open>str.lower\<close> and \<open>str.upper\<close> follow the Unicode character database, which
  is not part of the source. On a string of ASCII characters they change exactly the
  ASCII letters. On any other string the result is read from the case tables, which
  are a parameter \<open>ct\<close> of everything that changes the case of a string, and of
  which nothing is assumed.
\<close>

record case_tables =
  unicode_lower :: "string \<Rightarrow> string"
  unicode_upper :: "string \<Rightarrow> string"

definition is_ascii :: "string \<Rightarrow> bool" where
  "is_ascii s = list_all (\<lambda>c. (of_char c :: nat) < 128) s"

definition lower_char :: "char \<Rightarrow> char" where
  "lower_char c =
     (let n = (of_char c :: nat) in if 65 \<le> n \<and> n \<le> 90 then char_of (n + 32) else c)"

definition upper_char :: "char \<Rightarrow> char" where
  "upper_char c =
     (let n = (of_char c :: nat) in if 97 \<le> n \<and> n \<le> 122 then char_of (n - 32) else c)"

definition lower :: "case_tables \<Rightarrow> string \<Rightarrow> string" where
  "lower ct s = (if is_ascii s then map lower_char s else unicode_lower ct s)"

definition upper :: "case_tables \<Rightarrow> string \<Rightarrow> string" where
  "upper ct s = (if is_ascii s then map upper_char s else unicode_upper ct s)"

text \<open>
  The slice \<open>xs[start:stop]\<close> for arbitrary integers: a negative bound counts from the
  end of the list, and both bounds are then clamped to \<open>0 .. len(xs)\<close>.
\<close>

definition slice_bound :: "nat \<Rightarrow> int \<Rightarrow> nat" where
  "slice_bound n i = (if i < 0 then nat (max (i + int n) 0) else min (nat i) n)"

definition py_slice :: "'a list \<Rightarrow> int \<Rightarrow> int \<Rightarrow> 'a list" where
  "py_slice xs start stop =
     (let lo = slice_bound (length xs) start; hi = slice_bound (length xs) stop
      in take (hi - lo) (drop lo xs))"

text \<open>
  \<open>list.sort(key=..., reverse=...)\<close>: a stable sort; with \<open>reverse=True\<close> the list is
  reversed, sorted stably and reversed again, so equal keys keep their original order.
\<close>

definition py_sort :: "('a \<Rightarrow> 'k::linorder) \<Rightarrow> bool \<Rightarrow> 'a list \<Rightarrow> 'a list" where
  "py_sort key reverse xs =
     (if reverse then rev (sort_key key (rev xs)) else sort_key key xs)"

section \<open>The filter engine: filtrar\_licitacoes\<close>

text \<open>
  The nine narrowing steps, in the order of the source. A list criterion is applied
  when it is truthy (given and not empty), a value bound when it is not \<open>None\<close>, a date
  bound when it is given (a date is always truthy), the search text when it is given and
  not empty.
\<close>

definition passo_tipos :: "TipoLicitacao list option \<Rightarrow> licitacao list \<Rightarrow> licitacao list" where
  "passo_tipos ts resultado =
     (case ts of None \<Rightarrow> resultado
      | Some xs \<Rightarrow> if xs = [] then resultado else filter (\<lambda>l. tipo l \<in> set xs) resultado)"

definition passo_status :: "StatusLicitacao list option \<Rightarrow> licitacao list \<Rightarrow> licitacao list" where
  "passo_status ss resultado =
     (case ss of None \<Rightarrow> resultado
      | Some xs \<Rightarrow> if xs = [] then resultado else filter (\<lambda>l. status l \<in> set xs) resultado)"

definition passo_ufs :: "UF list option \<Rightarrow> licitacao list \<Rightarrow> licitacao list" where
  "passo_ufs us resultado =
     (case us of None \<Rightarrow> resultado
      | Some xs \<Rightarrow> if xs = [] then resultado else filter (\<lambda>l. uf l \<in> set xs) resultado)"

definition passo_cidades :: "case_tables \<Rightarrow> string list option \<Rightarrow> licitacao list \<Rightarrow> licitacao list" where
  "passo_cidades ct cs resultado =
     (case cs of None \<Rightarrow> resultado
      | Some xs \<Rightarrow>
          if xs = [] then resultado
          else (let cidades_lower = map (lower ct) xs
                in filter (\<lambda>l. lower ct (cidade l) \<in> set cidades_lower) resultado))"

definition passo_valor_min :: "real option \<Rightarrow> licitacao list \<Rightarrow> licitacao list" where
  "passo_valor_min vmin resultado =
     (case vmin of None \<Rightarrow> resultado
      | Some m \<Rightarrow>
          filter (\<lambda>l. (case valor_estimado l of None \<Rightarrow> 0 | Some v \<Rightarrow> v) \<ge> m) resultado)"

text \<open>
  The default of the upper-bound step is \<open>float('inf')\<close>, the one non-finite float the
  code itself produces: \<open>PInf\<close> below, above every finite amount.
\<close>

datatype valor_ou_inf = Fin real | PInf

fun le_inf :: "valor_ou_inf \<Rightarrow> valor_ou_inf \<Rightarrow> bool" where
  "le_inf (Fin a) (Fin b) = (a \<le> b)"
| "le_inf (Fin a) PInf = True"
| "le_inf PInf (Fin b) = False"
| "le_inf PInf PInf = True"

definition passo_valor_max :: "real option \<Rightarrow> licitacao list \<Rightarrow> licitacao list" where
  "passo_valor_max vmax resultado =
     (case vmax of None \<Rightarrow> resultado
      | Some m \<Rightarrow>
          filter (\<lambda>l. le_inf (case valor_estimado l of None \<Rightarrow> PInf | Some v \<Rightarrow> Fin v) (Fin m))
            resultado)"

definition passo_data_inicio :: "date option \<Rightarrow> licitacao list \<Rightarrow> licitacao list" where
  "passo_data_inicio d resultado =
     (case d of None \<Rightarrow> resultado
      | Some inicio \<Rightarrow> filter (\<lambda>l. data_abertura l \<ge> inicio) resultado)"

definition passo_data_fim :: "date option \<Rightarrow> licitacao list \<Rightarrow> licitacao list" where
  "passo_data_fim d resultado =
     (case d of None \<Rightarrow> resultado
      | Some fim \<Rightarrow> filter (\<lambda>l. data_abertura l \<le> fim) resultado)"

definition passo_texto :: "case_tables \<Rightarrow> string option \<Rightarrow> licitacao list \<Rightarrow> licitacao list" where
  "passo_texto ct t resultado =
     (case t of None \<Rightarrow> resultado
      | Some txt \<Rightarrow>
          if txt = [] then resultado
          else (let texto_lower = lower ct txt
                in filter (\<lambda>l. sublist texto_lower (lower ct (objeto l))
                              \<or> sublist texto_lower (lower ct (orgao l))
                              \<or> sublist texto_lower (lower ct (numero l))) resultado))"

text \<open>The working set after the nine steps, before pagination.\<close>

definition filtrados :: "case_tables \<Rightarrow> licitacao list \<Rightarrow> FiltrosLicitacao \<Rightarrow> licitacao list" where
  "filtrados ct licitacoes f =
     (let resultado = licitacoes;
          resultado = passo_tipos (tipos f) resultado;
          resultado = passo_status (status_in f) resultado;
          resultado = passo_ufs (ufs f) resultado;
          resultado = passo_cidades ct (cidades f) resultado;
          resultado = passo_valor_min (valor_min f) resultado;
          resultado = passo_valor_max (valor_max f) resultado;
          resultado = passo_data_inicio (data_abertura_inicio f) resultado;
          resultado = passo_data_fim (data_abertura_fim f) resultado;
          resultado = passo_texto ct (texto_busca f) resultado
      in resultado)"

text \<open>
  \<open>filtrar_licitacoes\<close>: the nine steps, then \<open>total = len(resultado)\<close> and the page
  \<open>resultado[offset:offset + limite]\<close>. It returns the page and the total.
\<close>

definition filtrar_licitacoes ::
  "case_tables \<Rightarrow> licitacao list \<Rightarrow> FiltrosLicitacao \<Rightarrow> int \<Rightarrow> int \<Rightarrow> licitacao list \<times> nat" where
  "filtrar_licitacoes ct licitacoes f limite offset =
     (let resultado = filtrados ct licitacoes f;
          total = length resultado;
          resultado = py_slice resultado offset (offset + limite)
      in (resultado, total))"

section \<open>The mock collection\<close>

text \<open>The letters outside ASCII that occur in the mock records, as UTF-8.\<close>

definition c_cedilha :: string where "c_cedilha = [CHR 0xC3, CHR 0xA7]"
definition a_til :: string where "a_til = [CHR 0xC3, CHR 0xA3]"
definition a_agudo :: string where "a_agudo = [CHR 0xC3, CHR 0xA1]"
definition i_agudo :: string where "i_agudo = [CHR 0xC3, CHR 0xAD]"

text \<open>
  \<open>MOCK_LICITACOES\<close> is built once, when the module is loaded; its ten
  \<open>datetime.now()\<close> readings are the first ten readings of the clock \<open>agora\<close>.
\<close>

definition MOCK_LICITACOES :: "(nat \<Rightarrow> datetime) \<Rightarrow> licitacao list" where
  "MOCK_LICITACOES agora =
    [ \<lparr> id_licitacao = 1, numero = ''001/2024'', tipo = PREGAO,
        objeto = ''Aquisi'' @ c_cedilha @ a_til @ ''o de equipamentos de inform'' @ a_agudo @ ''tica'',
        orgao = ''Prefeitura Municipal de S'' @ a_til @ ''o Paulo'',
        status = ABERTA, valor_estimado = Some 150000,
        data_abertura = (2024, 10, 15), data_encerramento = Some (2024, 11, 15),
        uf = SP, cidade = ''S'' @ a_til @ ''o Paulo'',
        modalidade_participacao = Some ''Presencial/Online'',
        link_edital = Some ''https://exemplo.com/edital1'',
        created_at = agora 0, updated_at = agora 1 \<rparr>,
      \<lparr> id_licitacao = 2, numero = ''002/2024'', tipo = CONCORRENCIA,
        objeto = ''Constru'' @ c_cedilha @ a_til @ ''o de escola municipal'',
        orgao = ''Governo do Estado do Rio de Janeiro'',
        status = EM_ANDAMENTO, valor_estimado = Some 2500000,
        data_abertura = (2024, 9, 20), data_encerramento = Some (2024, 12, 20),
        uf = RJ, cidade = ''Rio de Janeiro'',
        modalidade_participacao = Some ''Presencial'',
        link_edital = Some ''https://exemplo.com/edital2'',
        created_at = agora 2, updated_at = agora 3 \<rparr>,
      \<lparr> id_licitacao = 3, numero = ''003/2024'', tipo = TOMADA_PRECOS,
        objeto = ''Servi'' @ c_cedilha @ ''os de limpeza urbana'',
        orgao = ''Prefeitura de Bras'' @ i_agudo @ ''lia'',
        status = ABERTA, valor_estimado = Some 800000,
        data_abertura = (2024, 10, 10), data_encerramento = Some (2024, 11, 30),
        uf = DF, cidade = ''Bras'' @ i_agudo @ ''lia'',
        modalidade_participacao = Some ''Online'',
        link_edital = Some ''https://exemplo.com/edital3'',
        created_at = agora 4, updated_at = agora 5 \<rparr>,
      \<lparr> id_licitacao = 4, numero = ''004/2024'', tipo = PREGAO,
        objeto = ''Aquisi'' @ c_cedilha @ a_til @ ''o de medicamentos'',
        orgao = ''Hospital Regional de Salvador'',
        status = ABERTA, valor_estimado = Some 500000,
        data_abertura = (2024, 10, 25), data_encerramento = Some (2024, 12, 15),
        uf = BA, cidade = ''Salvador'',
        modalidade_participacao = Some ''Online'',
        link_edital = Some ''https://exemplo.com/edital4'',
        created_at = agora 6, updated_at = agora 7 \<rparr>,
      \<lparr> id_licitacao = 5, numero = ''005/2024'', tipo = RDC,
        objeto = ''Constru'' @ c_cedilha @ a_til @ ''o de ponte'',
        orgao = ''DNIT - Departamento Nacional de Infraestrutura'',
        status = ENCERRADA, valor_estimado = Some 15000000,
        data_abertura = (2024, 8, 1), data_encerramento = Some (2024, 9, 30),
        uf = MG, cidade = ''Belo Horizonte'',
        modalidade_participacao = Some ''Presencial'',
        link_edital = Some ''https://exemplo.com/edital5'',
        created_at = agora 8, updated_at = agora 9 \<rparr> ]"

section \<open>The endpoints over the collection\<close>

text \<open>
  \<open>GET /licitacoes\<close>. The handler filters and paginates with \<open>filtrar_licitacoes\<close>
  and afterwards sorts the list it got back, when \<open>ordenar_por\<close> is one of the three
  sortable fields. The framework admits \<open>1 \<le> limite \<le> 1000\<close> and \<open>0 \<le> offset\<close>.
  Nothing in the body raises on records of this shape, so the handler's \<open>except\<close>
  branch has no counterpart. \<open>obter_licitacoes_de\<close> is the handler's body with the
  collection as an argument; the handler itself runs it on the mock collection.
\<close>

record resposta_licitacoes =
  dados :: "licitacao list"
  total :: nat
  limite_resp :: int
  offset_resp :: int
  tem_proxima_pagina :: bool
  filtros_aplicados :: FiltrosLicitacao

definition ordenar ::
  "string option \<Rightarrow> bool \<Rightarrow> licitacao list \<Rightarrow> licitacao list" where
  "ordenar ordenar_por ordem_desc licitacoes_filtradas =
     (case ordenar_por of
        None \<Rightarrow> licitacoes_filtradas
      | Some campo \<Rightarrow>
          if campo \<noteq> [] \<and> campo \<in> set [''data_abertura'', ''valor_estimado'', ''numero'']
          then (let reverse = ordem_desc in
                if campo = ''data_abertura''
                then py_sort data_abertura reverse licitacoes_filtradas
                else if campo = ''valor_estimado''
                then py_sort (\<lambda>x. case valor_estimado x of None \<Rightarrow> (0::real) | Some v \<Rightarrow> v)
                       reverse licitacoes_filtradas
                else if campo = ''numero''
                then py_sort numero reverse licitacoes_filtradas
                else licitacoes_filtradas)
          else licitacoes_filtradas)"

definition obter_licitacoes_de ::
  "case_tables \<Rightarrow> licitacao list \<Rightarrow> FiltrosLicitacao \<Rightarrow> int \<Rightarrow> int \<Rightarrow> string option \<Rightarrow> bool
     \<Rightarrow> resposta_licitacoes" where
  "obter_licitacoes_de ct licitacoes f limite offset ordenar_por ordem_desc =
     (let (licitacoes_filtradas, total) = filtrar_licitacoes ct licitacoes f limite offset;
          licitacoes_filtradas = ordenar ordenar_por ordem_desc licitacoes_filtradas
      in \<lparr> dados = licitacoes_filtradas, total = total, limite_resp = limite,
           offset_resp = offset, tem_proxima_pagina = (offset + limite < int total),
           filtros_aplicados = f \<rparr>)"

definition obter_licitacoes ::
  "case_tables \<Rightarrow> (nat \<Rightarrow> datetime) \<Rightarrow> FiltrosLicitacao \<Rightarrow> int \<Rightarrow> int \<Rightarrow> string option \<Rightarrow> bool
     \<Rightarrow> resposta_licitacoes" where
  "obter_licitacoes ct agora = obter_licitacoes_de ct (MOCK_LICITACOES agora)"

text \<open>
  \<open>POST /licitacoes/buscar\<close>. The handler passes the nine criteria of the filter
  document and neither \<open>limite\<close> nor \<open>offset\<close>, so \<open>filtrar_licitacoes\<close> runs with
  its defaults \<open>limite = 100\<close> and \<open>offset = 0\<close>.
\<close>

record resposta_busca =
  dados_busca :: "licitacao list"
  total_busca :: nat
  filtros_busca :: FiltrosLicitacao

definition limite_padrao :: int where "limite_padrao = 100"
definition offset_padrao :: int where "offset_padrao = 0"

definition buscar_licitacoes_de :: "case_tables \<Rightarrow> licitacao list \<Rightarrow> FiltrosLicitacao \<Rightarrow> resposta_busca" where
  "buscar_licitacoes_de ct licitacoes filtros =
     (let (licitacoes_filtradas, total) =
            filtrar_licitacoes ct licitacoes filtros limite_padrao offset_padrao
      in \<lparr> dados_busca = licitacoes_filtradas, total_busca = total, filtros_busca = filtros \<rparr>)"

definition buscar_licitacoes :: "case_tables \<Rightarrow> (nat \<Rightarrow> datetime) \<Rightarrow> FiltrosLicitacao \<Rightarrow> resposta_busca" where
  "buscar_licitacoes ct agora = buscar_licitacoes_de ct (MOCK_LICITACOES agora)"

text \<open>
  \<open>GET /estatisticas\<close>. Each grouped count is a dictionary built by one loop over the
  collection: \<open>d[k] = d.get(k, 0) + 1\<close> for the record's key \<open>k\<close>.
\<close>

fun contar :: "('a \<Rightarrow> string) \<Rightarrow> (string \<rightharpoonup> nat) \<Rightarrow> 'a list \<Rightarrow> (string \<rightharpoonup> nat)" where
  "contar chave d [] = d"
| "contar chave d (l # ls) =
     contar chave (d(chave l \<mapsto> (case d (chave l) of None \<Rightarrow> 0 | Some c \<Rightarrow> c) + 1)) ls"

record estatisticas =
  total_licitacoes :: nat
  valor_total_estimado :: real
  distribuicao_por_tipo :: "string \<rightharpoonup> nat"
  distribuicao_por_status :: "string \<rightharpoonup> nat"
  distribuicao_por_uf :: "string \<rightharpoonup> nat"

definition estatisticas_de :: "licitacao list \<Rightarrow> estatisticas" where
  "estatisticas_de licitacoes =
     (let total_licitacoes = length licitacoes;
          tipos_count = contar (\<lambda>l. TipoLicitacao_value (tipo l)) Map.empty licitacoes;
          status_count = contar (\<lambda>l. StatusLicitacao_value (status l)) Map.empty licitacoes;
          ufs_count = contar (\<lambda>l. UF_value (uf l)) Map.empty licitacoes;
          valor_total =
            sum_list (map (\<lambda>l. case valor_estimado l of None \<Rightarrow> 0 | Some v \<Rightarrow> v) licitacoes)
      in \<lparr> total_licitacoes = total_licitacoes, valor_total_estimado = valor_total,
           distribuicao_por_tipo = tipos_count, distribuicao_por_status = status_count,
           distribuicao_por_uf = ufs_count \<rparr>)"

definition obter_estatisticas :: "(nat \<Rightarrow> datetime) \<Rightarrow> estatisticas" where
  "obter_estatisticas agora = estatisticas_de (MOCK_LICITACOES agora)"

section \<open>The normaliser of PNCP payloads\<close>

text \<open>
  A payload is whatever \<open>response.json()\<close> gave: a JSON value. An object is the
  association list of its keys, each key once.
\<close>

datatype json =
  JNull | JBool bool | JNum real | JStr string | JArr "json list" | JObj "(string \<times> json) list"

datatype py_error = AttributeError | TypeError

text \<open>\<open>d.get(k, default)\<close> on a dictionary.\<close>

definition dict_get :: "(string \<times> json) list \<Rightarrow> string \<Rightarrow> json \<Rightarrow> json" where
  "dict_get d k padrao = (case map_of d k of None \<Rightarrow> padrao | Some v \<Rightarrow> v)"

text \<open>
  \<open>for item in v\<close>: a list gives its elements, a dictionary its keys, a string its
  characters (one-character strings); \<open>None\<close>, a boolean and a number are not iterable.
\<close>

definition iterar :: "json \<Rightarrow> py_error + json list" where
  "iterar v =
     (case v of
        JArr xs \<Rightarrow> Inr xs
      | JObj d \<Rightarrow> Inr (map (\<lambda>kv. JStr (fst kv)) d)
      | JStr s \<Rightarrow> Inr (map (\<lambda>c. JStr [c]) s)
      | _ \<Rightarrow> Inl TypeError)"

text \<open>
  The two lookup tables. The argument is what \<open>item.get\<close> returned, so it need not be a
  string: \<open>.upper()\<close> exists on strings only.
\<close>

definition mapeamento_tipo :: "(string \<times> TipoLicitacao) list" where
  "mapeamento_tipo =
     [(''PREGAO'', PREGAO), (''CONCORRENCIA'', CONCORRENCIA), (''TOMADA_PRECOS'', TOMADA_PRECOS),
      (''CONVITE'', CONVITE), (''RDC'', RDC), (''CONCURSO'', CONCURSO), (''LEILAO'', LEILAO)]"

definition mapeamento_status :: "(string \<times> StatusLicitacao) list" where
  "mapeamento_status =
     [(''ABERTA'', ABERTA), (''EM_ANDAMENTO'', EM_ANDAMENTO), (''ENCERRADA'', ENCERRADA),
      (''SUSPENSA'', SUSPENSA), (''CANCELADA'', CANCELADA)]"

definition mapear_tipo_pncp :: "case_tables \<Rightarrow> json \<Rightarrow> py_error + TipoLicitacao" where
  "mapear_tipo_pncp ct modalidade =
     (case modalidade of
        JStr s \<Rightarrow> Inr (case map_of mapeamento_tipo (upper ct s) of None \<Rightarrow> PREGAO | Some t \<Rightarrow> t)
      | _ \<Rightarrow> Inl AttributeError)"

definition mapear_status_pncp :: "case_tables \<Rightarrow> json \<Rightarrow> py_error + StatusLicitacao" where
  "mapear_status_pncp ct situacao =
     (case situacao of
        JStr s \<Rightarrow> Inr (case map_of mapeamento_status (upper ct s) of None \<Rightarrow> ABERTA | Some t \<Rightarrow> t)
      | _ \<Rightarrow> Inl AttributeError)"

text \<open>
  A normalised record is the dictionary literal of the source, key by key in the order
  written. Its values are what \<open>item.get\<close> returned, except for the two mapped enums
  and the two clock readings.
\<close>

datatype valor = VJson json | VTipo TipoLicitacao | VStatus StatusLicitacao | VData datetime

type_synonym registro = "(string \<times> valor) list"

text \<open>
  The body of the \<open>try\<close>: the entries are evaluated in order and the first error leaves
  the block. \<open>item.get\<close> raises when the item is not a dictionary; the two mapping calls
  raise on a value that is not a string. \<open>t1\<close> and \<open>t2\<close> are the two clock readings,
  taken last.
\<close>

definition normalizar_item :: "case_tables \<Rightarrow> datetime \<Rightarrow> datetime \<Rightarrow> json \<Rightarrow> py_error + registro" where
  "normalizar_item ct t1 t2 item =
     (case item of
        JObj d \<Rightarrow>
          (case mapear_tipo_pncp ct (dict_get d ''modalidadeContratacao'' (JStr [])) of
             Inl e \<Rightarrow> Inl e
           | Inr tp \<Rightarrow>
               (case mapear_status_pncp ct (dict_get d ''situacaoLicitacao'' (JStr [])) of
                  Inl e \<Rightarrow> Inl e
                | Inr st \<Rightarrow>
                    Inr [ (''id'', VJson (dict_get d ''sequencialLicitacao'' (JNum 0))),
                          (''numero'', VJson (dict_get d ''numeroLicitacao'' (JStr []))),
                          (''tipo'', VTipo tp),
                          (''objeto'', VJson (dict_get d ''objetoLicitacao'' (JStr []))),
                          (''orgao'', VJson (dict_get d ''nomeOrgao'' (JStr []))),
                          (''status'', VStatus st),
                          (''valor_estimado'', VJson (dict_get d ''valorEstimado'' (JNum 0))),
                          (''data_abertura'', VJson (dict_get d ''dataAbertura'' (JStr []))),
                          (''data_encerramento'', VJson (dict_get d ''dataEncerramento'' JNull)),
                          (''uf'', VJson (dict_get d ''ufOrgao'' (JStr []))),
                          (''cidade'', VJson (dict_get d ''cidadeOrgao'' (JStr []))),
                          (''modalidade_participacao'',
                             VJson (dict_get d ''modalidadeContratacao'' (JStr []))),
                          (''link_edital'', VJson (dict_get d ''linkEdital'' JNull)),
                          (''created_at'', VData t1),
                          (''updated_at'', VData t2) ]))
      | _ \<Rightarrow> Inl AttributeError)"

text \<open>
  The loop over the items. \<open>agora\<close> is the clock and \<open>n\<close> the number of readings taken
  so far; an item that raises is skipped (\<open>continue\<close>) before it reads the clock, an
  item that succeeds reads it twice and is appended.
\<close>

fun normalizar_itens :: "case_tables \<Rightarrow> (nat \<Rightarrow> datetime) \<Rightarrow> nat \<Rightarrow> json list \<Rightarrow> registro list" where
  "normalizar_itens ct agora n [] = []"
| "normalizar_itens ct agora n (item # itens) =
     (case normalizar_item ct (agora n) (agora (n + 1)) item of
        Inl e \<Rightarrow> normalizar_itens ct agora n itens
      | Inr licitacao \<Rightarrow> licitacao # normalizar_itens ct agora (n + 2) itens)"

text \<open>
  \<open>normalizar_dados_pncp\<close>: \<open>dados_pncp.get("data", [])\<close> is read and iterated outside
  the \<open>try\<close>, so a payload that is not a dictionary, or whose \<open>data\<close> is not
  iterable, raises out of the function.
\<close>

definition normalizar_dados_pncp ::
  "case_tables \<Rightarrow> (nat \<Rightarrow> datetime) \<Rightarrow> nat \<Rightarrow> json \<Rightarrow> py_error + registro list" where
  "normalizar_dados_pncp ct agora n dados_pncp =
     (case dados_pncp of
        JObj d \<Rightarrow>
          (case iterar (dict_get d ''data'' (JArr [])) of
             Inl e \<Rightarrow> Inl e
           | Inr itens \<Rightarrow> Inr (normalizar_itens ct agora n itens))
      | _ \<Rightarrow> Inl AttributeError)"

section \<open>Notions the properties are stated with\<close>

text \<open>
  The predicates present in a set of criteria: for each criterion the code applies, the
  condition of its list comprehension; nothing for a criterion the code passes over.
  They are listed in the order of the nine steps.
\<close>

definition pred_tipos :: "FiltrosLicitacao \<Rightarrow> (licitacao \<Rightarrow> bool) list" where
  "pred_tipos f =
     (case tipos f of None \<Rightarrow> [] | Some xs \<Rightarrow> if xs = [] then [] else [\<lambda>l. tipo l \<in> set xs])"

definition pred_status :: "FiltrosLicitacao \<Rightarrow> (licitacao \<Rightarrow> bool) list" where
  "pred_status f =
     (case status_in f of None \<Rightarrow> []
      | Some xs \<Rightarrow> if xs = [] then [] else [\<lambda>l. status l \<in> set xs])"

definition pred_ufs :: "FiltrosLicitacao \<Rightarrow> (licitacao \<Rightarrow> bool) list" where
  "pred_ufs f =
     (case ufs f of None \<Rightarrow> [] | Some xs \<Rightarrow> if xs = [] then [] else [\<lambda>l. uf l \<in> set xs])"

definition pred_cidades :: "case_tables \<Rightarrow> FiltrosLicitacao \<Rightarrow> (licitacao \<Rightarrow> bool) list" where
  "pred_cidades ct f =
     (case cidades f of None \<Rightarrow> []
      | Some xs \<Rightarrow> if xs = [] then [] else [\<lambda>l. lower ct (cidade l) \<in> set (map (lower ct) xs)])"

text \<open>The value a record counts with against each bound.\<close>

definition valor_para_min :: "licitacao \<Rightarrow> real" where
  "valor_para_min l = (case valor_estimado l of None \<Rightarrow> 0 | Some v \<Rightarrow> v)"

definition valor_para_max :: "licitacao \<Rightarrow> valor_ou_inf" where
  "valor_para_max l = (case valor_estimado l of None \<Rightarrow> PInf | Some v \<Rightarrow> Fin v)"

definition pred_valor_min :: "FiltrosLicitacao \<Rightarrow> (licitacao \<Rightarrow> bool) list" where
  "pred_valor_min f =
     (case valor_min f of None \<Rightarrow> [] | Some m \<Rightarrow> [\<lambda>l. valor_para_min l \<ge> m])"

definition pred_valor_max :: "FiltrosLicitacao \<Rightarrow> (licitacao \<Rightarrow> bool) list" where
  "pred_valor_max f =
     (case valor_max f of None \<Rightarrow> [] | Some m \<Rightarrow> [\<lambda>l. le_inf (valor_para_max l) (Fin m)])"

definition pred_data_inicio :: "FiltrosLicitacao \<Rightarrow> (licitacao \<Rightarrow> bool) list" where
  "pred_data_inicio f =
     (case data_abertura_inicio f of None \<Rightarrow> [] | Some d \<Rightarrow> [\<lambda>l. data_abertura l \<ge> d])"

definition pred_data_fim :: "FiltrosLicitacao \<Rightarrow> (licitacao \<Rightarrow> bool) list" where
  "pred_data_fim f =
     (case data_abertura_fim f of None \<Rightarrow> [] | Some d \<Rightarrow> [\<lambda>l. data_abertura l \<le> d])"

definition pred_texto :: "case_tables \<Rightarrow> FiltrosLicitacao \<Rightarrow> (licitacao \<Rightarrow> bool) list" where
  "pred_texto ct f =
     (case texto_busca f of None \<Rightarrow> []
      | Some txt \<Rightarrow>
          if txt = [] then []
          else [\<lambda>l. sublist (lower ct txt) (lower ct (objeto l))
                    \<or> sublist (lower ct txt) (lower ct (orgao l))
                    \<or> sublist (lower ct txt) (lower ct (numero l))])"

definition predicados_presentes :: "case_tables \<Rightarrow> FiltrosLicitacao \<Rightarrow> (licitacao \<Rightarrow> bool) list" where
  "predicados_presentes ct f =
     pred_tipos f @ pred_status f @ pred_ufs f @ pred_cidades ct f @ pred_valor_min f
       @ pred_valor_max f @ pred_data_inicio f @ pred_data_fim f @ pred_texto ct f"

text \<open>A record satisfies the criteria when every present predicate holds of it.\<close>

definition atende :: "case_tables \<Rightarrow> FiltrosLicitacao \<Rightarrow> licitacao \<Rightarrow> bool" where
  "atende ct f l = list_all (\<lambda>p. p l) (predicados_presentes ct f)"

text \<open>The criteria with nothing given, and the clock whose \<open>n\<close>-th reading is \<open>n\<close>.\<close>

definition sem_filtros :: FiltrosLicitacao where
  "sem_filtros =
     \<lparr> tipos = None, status_in = None, ufs = None, cidades = None, valor_min = None,
       valor_max = None, data_abertura_inicio = None, data_abertura_fim = None,
       texto_busca = None \<rparr>"

definition relogio :: "nat \<Rightarrow> datetime" where
  "relogio = id"

text \<open>
  Case tables that change the ASCII letters only. They stand for the parameter where a
  closed example needs one; none of the examples below changes the case of a string
  that is not ASCII.
\<close>

definition tabelas_ascii :: case_tables where
  "tabelas_ascii = \<lparr> unicode_lower = map lower_char, unicode_upper = map upper_char \<rparr>"

text \<open>
  The page as the specification describes it: the whole filtered subset is ordered by
  the selected field and direction first, and the slice \<open>[offset, offset + limite)\<close> is
  taken from the ordered list.
\<close>

definition pagina_especificada ::
  "case_tables \<Rightarrow> licitacao list \<Rightarrow> FiltrosLicitacao \<Rightarrow> int \<Rightarrow> int \<Rightarrow> string option \<Rightarrow> bool
     \<Rightarrow> licitacao list" where
  "pagina_especificada ct licitacoes f limite offset ordenar_por ordem_desc =
     py_slice (ordenar ordenar_por ordem_desc (filtrados ct licitacoes f)) offset (offset + limite)"

text \<open>
  The keys the normaliser looks for in an item, and the record it builds when an item
  has none of them.
\<close>

definition chaves_reconhecidas :: "string list" where
  "chaves_reconhecidas =
     [''sequencialLicitacao'', ''numeroLicitacao'', ''modalidadeContratacao'',
      ''objetoLicitacao'', ''nomeOrgao'', ''situacaoLicitacao'', ''valorEstimado'',
      ''dataAbertura'', ''dataEncerramento'', ''ufOrgao'', ''cidadeOrgao'', ''linkEdital'']"

definition sem_chaves_reconhecidas :: "(string \<times> json) list \<Rightarrow> bool" where
  "sem_chaves_reconhecidas d = list_all (\<lambda>k. map_of d k = None) chaves_reconhecidas"

definition registro_padrao :: "datetime \<Rightarrow> datetime \<Rightarrow> registro" where
  "registro_padrao t1 t2 =
     [ (''id'', VJson (JNum 0)), (''numero'', VJson (JStr [])), (''tipo'', VTipo PREGAO),
       (''objeto'', VJson (JStr [])), (''orgao'', VJson (JStr [])),
       (''status'', VStatus ABERTA), (''valor_estimado'', VJson (JNum 0)),
       (''data_abertura'', VJson (JStr [])), (''data_encerramento'', VJson JNull),
       (''uf'', VJson (JStr [])), (''cidade'', VJson (JStr [])),
       (''modalidade_participacao'', VJson (JStr [])), (''link_edital'', VJson JNull),
       (''created_at'', VData t1), (''updated_at'', VData t2) ]"

text \<open>
  An item raises during extraction when its normalisation is an error; which clock
  readings it would have been given makes no difference. The surviving items of a
  payload are those that do not raise, in the order of the payload.
\<close>

definition item_falha :: "case_tables \<Rightarrow> json \<Rightarrow> bool" where
  "item_falha ct item = isl (normalizar_item ct 0 0 item)"

definition sobreviventes :: "case_tables \<Rightarrow> json list \<Rightarrow> json list" where
  "sobreviventes ct itens = filter (\<lambda>item. \<not> item_falha ct item) itens"

text \<open>Concrete criteria and records on which the properties are exercised.\<close>

definition filtros_uf :: FiltrosLicitacao where
  "filtros_uf = sem_filtros\<lparr>ufs := Some [SP, RJ]\<rparr>"

definition filtros_dois :: FiltrosLicitacao where
  "filtros_dois = sem_filtros\<lparr>tipos := Some [PREGAO], valor_min := Some 200000\<rparr>"

definition licitacao_sem_valor :: licitacao where
  "licitacao_sem_valor = (hd (MOCK_LICITACOES relogio))\<lparr>valor_estimado := None\<rparr>"

text \<open>
  A payload with a well-formed item, an item that is not a dictionary, and a dictionary
  that has none of the recognised keys.
\<close>

definition item_exemplo :: json where
  "item_exemplo =
     JObj [(''sequencialLicitacao'', JNum 7), (''numeroLicitacao'', JStr ''010/2024''),
           (''modalidadeContratacao'', JStr ''Leilao''),
           (''situacaoLicitacao'', JStr ''encerrada''), (''valorEstimado'', JNum 1000)]"

definition item_vazio :: "(string \<times> json) list" where
  "item_vazio = [(''outraChave'', JNull)]"

definition payload_exemplo :: "(string \<times> json) list" where
  "payload_exemplo =
     [(''data'', JArr [item_exemplo, JNum 3, JObj item_vazio]), (''totalElements'', JNum 3)]"

text \<open>
  The codes of the two tables written in mixed letter case, followed by codes that are
  in neither table.
\<close>

definition codigos_tipo :: "string list" where
  "codigos_tipo =
     [''pregao'', ''Concorrencia'', ''TOMADA_precos'', ''CONVITE'', ''rdc'', ''ConCurso'',
      ''leilao'', ''consulta_publica'', ''xyz'']"

definition codigos_status :: "string list" where
  "codigos_status =
     [''aberta'', ''Em_Andamento'', ''ENCERRADA'', ''suspensa'', ''Cancelada'', ''xyz'']"

text \<open>
  The code \<open>conv\<close>, dotless i (U+0131, in UTF-8), \<open>te\<close>, and case tables that raise
  it to \<open>CONVITE\<close> as the Unicode tables do.
\<close>

definition convite_sem_ponto :: string where
  "convite_sem_ponto = ''conv'' @ [CHR 0xC4, CHR 0xB1] @ ''te''"

definition tabelas_exemplo :: case_tables where
  "tabelas_exemplo =
     \<lparr> unicode_lower = id,
       unicode_upper = (\<lambda>s. if s = convite_sem_ponto then ''CONVITE'' else s) \<rparr>"

section \<open>The filter engine is a filter by the present predicates\<close>

lemma fold_filter_conj: "fold filter ps xs = filter (\<lambda>l. list_all (\<lambda>p. p l) ps) xs"
  by (induction ps arbitrary: xs) (auto intro: filter_cong)

lemma passo_tipos_pred: "passo_tipos (tipos f) xs = fold filter (pred_tipos f) xs"
  by (simp add: passo_tipos_def pred_tipos_def split: option.split)

lemma passo_status_pred: "passo_status (status_in f) xs = fold filter (pred_status f) xs"
  by (simp add: passo_status_def pred_status_def split: option.split)

lemma passo_ufs_pred: "passo_ufs (ufs f) xs = fold filter (pred_ufs f) xs"
  by (simp add: passo_ufs_def pred_ufs_def split: option.split)

lemma passo_cidades_pred: "passo_cidades ct (cidades f) xs = fold filter (pred_cidades ct f) xs"
  by (simp add: passo_cidades_def pred_cidades_def Let_def split: option.split)

lemma passo_valor_min_pred:
  "passo_valor_min (valor_min f) xs = fold filter (pred_valor_min f) xs"
  by (simp add: passo_valor_min_def pred_valor_min_def valor_para_min_def split: option.split)

lemma passo_valor_max_pred:
  "passo_valor_max (valor_max f) xs = fold filter (pred_valor_max f) xs"
  by (simp add: passo_valor_max_def pred_valor_max_def valor_para_max_def split: option.split)

lemma passo_data_inicio_pred:
  "passo_data_inicio (data_abertura_inicio f) xs = fold filter (pred_data_inicio f) xs"
  by (simp add: passo_data_inicio_def pred_data_inicio_def split: option.split)

lemma passo_data_fim_pred:
  "passo_data_fim (data_abertura_fim f) xs = fold filter (pred_data_fim f) xs"
  by (simp add: passo_data_fim_def pred_data_fim_def split: option.split)

lemma passo_texto_pred: "passo_texto ct (texto_busca f) xs = fold filter (pred_texto ct f) xs"
  by (simp add: passo_texto_def pred_texto_def Let_def split: option.split)

lemma filtrados_fold: "filtrados ct xs f = fold filter (predicados_presentes ct f) xs"
  unfolding filtrados_def predicados_presentes_def Let_def fold_append comp_def
  by (simp only: passo_tipos_pred passo_status_pred passo_ufs_pred passo_cidades_pred
      passo_valor_min_pred passo_valor_max_pred passo_data_inicio_pred passo_data_fim_pred
      passo_texto_pred)

lemma filtrados_filter: "filtrados ct xs f = filter (atende ct f) xs"
  by (simp add: filtrados_fold fold_filter_conj atende_def cong: filter_cong)

lemma filtrar_licitacoes_eq:
  "filtrar_licitacoes ct xs f limite offset =
     (py_slice (filter (atende ct f) xs) offset (offset + limite), length (filter (atende ct f) xs))"
  by (simp add: filtrar_licitacoes_def Let_def filtrados_filter)

lemma filtrados_sem_caixa:
  "cidades f = None \<Longrightarrow> texto_busca f = None \<Longrightarrow> filtrados ct R f = filtrados ct' R f"
  by (simp add: filtrados_def passo_cidades_def passo_texto_def)

lemma predicados_sem_filtros: "predicados_presentes ct sem_filtros = []"
  by (simp add: predicados_presentes_def sem_filtros_def pred_tipos_def pred_status_def
      pred_ufs_def pred_cidades_def pred_valor_min_def pred_valor_max_def
      pred_data_inicio_def pred_data_fim_def pred_texto_def)

lemma atende_sem_predicados: "predicados_presentes ct f = [] \<Longrightarrow> filter (atende ct f) xs = xs"
  by (simp add: atende_def)

section \<open>Slices\<close>

lemma py_slice_length:
  "0 \<le> offset \<Longrightarrow> 0 < limite \<Longrightarrow>
     int (length (py_slice xs offset (offset + limite)))
       = max 0 (min limite (int (length xs) - offset))"
  by (auto simp add: py_slice_def slice_bound_def Let_def min_def max_def)

lemma py_slice_take_drop:
  assumes "0 \<le> offset" "0 \<le> limite"
  shows "py_slice xs offset (offset + limite) = take (nat limite) (drop (nat offset) xs)"
proof (cases "nat offset \<ge> length xs")
  case True
  then show ?thesis using assms by (simp add: py_slice_def slice_bound_def Let_def)
next
  case False
  then have lo: "slice_bound (length xs) offset = nat offset"
    using assms by (simp add: slice_bound_def)
  show ?thesis
  proof (cases "nat (offset + limite) \<le> length xs")
    case True
    then have "slice_bound (length xs) (offset + limite) = nat (offset + limite)"
      using assms by (simp add: slice_bound_def)
    moreover have "nat (offset + limite) - nat offset = nat limite"
      using assms by linarith
    ultimately show ?thesis by (simp add: py_slice_def lo Let_def)
  next
    case beyond: False
    then have "slice_bound (length xs) (offset + limite) = length xs"
      using assms by (simp add: slice_bound_def)
    moreover have "length (drop (nat offset) xs) \<le> nat limite"
      using beyond assms unfolding length_drop by linarith
    ultimately show ?thesis by (simp add: py_slice_def lo Let_def)
  qed
qed

section \<open>Evaluations on the mock collection\<close>

lemma mock_valor_min_total:
  "snd (filtrar_licitacoes tabelas_ascii (MOCK_LICITACOES relogio)
          (sem_filtros\<lparr>valor_min := Some 600000\<rparr>) 2 1) = 3"
  by code_simp

lemma mock_valor_min_atende:
  "length (filter (atende tabelas_ascii (sem_filtros\<lparr>valor_min := Some 600000\<rparr>)) (MOCK_LICITACOES relogio)) = 3"
  by code_simp

lemma mock_length: "length (MOCK_LICITACOES relogio) = 5"
  by (simp add: MOCK_LICITACOES_def)

section \<open>Total and pagination\<close>

text \<open>
  Claim C3. The total returned by \<open>filtrar_licitacoes\<close> is the number of records of
  the collection that satisfy every present predicate, whatever \<open>limite\<close> and
  \<open>offset\<close> are: two calls that differ only in \<open>limite\<close> and \<open>offset\<close> return the
  same total. When no predicate is present, and in particular for the criteria with
  nothing given, the total is the length of the collection.
\<close>

theorem total_antes_da_paginacao:
  "snd (filtrar_licitacoes ct R f limite offset) = length (filter (atende ct f) R)
   \<and> snd (filtrar_licitacoes ct R f limite offset) = snd (filtrar_licitacoes ct R f limite' offset')
   \<and> (predicados_presentes ct f = [] \<longrightarrow> snd (filtrar_licitacoes ct R f limite offset) = length R)
   \<and> snd (filtrar_licitacoes ct R sem_filtros limite offset) = length R"
  by (simp add: filtrar_licitacoes_eq atende_sem_predicados predicados_sem_filtros)

theorem total_antes_da_paginacao_witness:
  "snd (filtrar_licitacoes tabelas_ascii (MOCK_LICITACOES relogio)
          (sem_filtros\<lparr>valor_min := Some 600000\<rparr>) 2 1) = 3
   \<and> length (filter (atende tabelas_ascii (sem_filtros\<lparr>valor_min := Some 600000\<rparr>)) (MOCK_LICITACOES relogio)) = 3
   \<and> predicados_presentes tabelas_ascii sem_filtros = []
   \<and> snd (filtrar_licitacoes tabelas_ascii (MOCK_LICITACOES relogio) sem_filtros 2 1) = 5"
  using total_antes_da_paginacao [of tabelas_ascii "MOCK_LICITACOES relogio"
      "sem_filtros\<lparr>valor_min := Some 600000\<rparr>" 2 1 100 0]
    total_antes_da_paginacao [of tabelas_ascii "MOCK_LICITACOES relogio" sem_filtros 2 1 100 0]
  by (simp add: mock_valor_min_atende predicados_sem_filtros mock_length)

text \<open>
  Claim C4. For a non-negative \<open>offset\<close> and a positive \<open>limite\<close>, the page that
  \<open>filtrar_licitacoes\<close> slices out of the filtered working set has length
  \<open>max(0, min(limite, n - offset))\<close>, \<open>n\<close> being the length of the working set, when
  \<open>offset \<le> n\<close>; when \<open>offset > n\<close> the page is the empty list, and no error is
  raised: the function returns a page and a total for every input.
\<close>

theorem tamanho_da_pagina:
  assumes "0 \<le> offset" and "0 < limite"
  shows "(offset \<le> int (length (filtrados ct R f)) \<longrightarrow>
            int (length (fst (filtrar_licitacoes ct R f limite offset)))
              = max 0 (min limite (int (length (filtrados ct R f)) - offset)))
         \<and> (offset > int (length (filtrados ct R f)) \<longrightarrow>
              fst (filtrar_licitacoes ct R f limite offset) = [])"
proof -
  have len: "int (length (fst (filtrar_licitacoes ct R f limite offset)))
               = max 0 (min limite (int (length (filtrados ct R f)) - offset))"
    using assms by (simp add: filtrar_licitacoes_def Let_def py_slice_length)
  have "fst (filtrar_licitacoes ct R f limite offset) = []"
    if "offset > int (length (filtrados ct R f))"
    using that len assms by (simp add: max_def min_def split: if_splits)
  with len show ?thesis by blast
qed

theorem tamanho_da_pagina_witness:
  "(0::int) \<le> 3 \<and> (0::int) < 4 \<and> (0::int) \<le> 7
   \<and> length (filtrados tabelas_ascii (MOCK_LICITACOES relogio) sem_filtros) = 5
   \<and> length (fst (filtrar_licitacoes tabelas_ascii (MOCK_LICITACOES relogio) sem_filtros 4 3)) = 2
   \<and> fst (filtrar_licitacoes tabelas_ascii (MOCK_LICITACOES relogio) sem_filtros 4 7) = []"
  using tamanho_da_pagina [of 3 4 tabelas_ascii "MOCK_LICITACOES relogio" sem_filtros]
    tamanho_da_pagina [of 7 4 tabelas_ascii "MOCK_LICITACOES relogio" sem_filtros]
  by (simp add: filtrados_filter atende_sem_predicados predicados_sem_filtros mock_length)

section \<open>Soundness and completeness of the filter\<close>

lemma set_py_slice: "set (py_slice xs a b) \<subseteq> set xs"
  unfolding py_slice_def Let_def
  by (meson set_take_subset set_drop_subset subset_trans)

lemma atende_iff: "atende ct f l \<longleftrightarrow> (\<forall>p \<in> set (predicados_presentes ct f). p l)"
  by (simp add: atende_def list_all_iff)

lemma mock_uf_total:
  "snd (filtrar_licitacoes tabelas_ascii (MOCK_LICITACOES relogio) filtros_uf 100 0) = 2"
  by code_simp

lemma mock_uf_fora:
  "MOCK_LICITACOES relogio ! 2 \<in> set (MOCK_LICITACOES relogio)
   \<and> MOCK_LICITACOES relogio ! 2 \<notin> set (filtrados tabelas_ascii (MOCK_LICITACOES relogio) filtros_uf)
   \<and> list_ex (\<lambda>p. \<not> p (MOCK_LICITACOES relogio ! 2)) (predicados_presentes tabelas_ascii filtros_uf)"
  by code_simp

lemma mock_uf_dentro:
  "fst (filtrar_licitacoes tabelas_ascii (MOCK_LICITACOES relogio) filtros_uf 100 0)
     = [MOCK_LICITACOES relogio ! 0, MOCK_LICITACOES relogio ! 1]
   \<and> list_all (\<lambda>p. p (MOCK_LICITACOES relogio ! 0)) (predicados_presentes tabelas_ascii filtros_uf)
   \<and> list_all (\<lambda>p. p (MOCK_LICITACOES relogio ! 1)) (predicados_presentes tabelas_ascii filtros_uf)
   \<and> filtrados tabelas_ascii (MOCK_LICITACOES relogio) filtros_uf
     = [MOCK_LICITACOES relogio ! 0, MOCK_LICITACOES relogio ! 1]"
  by code_simp

text \<open>
  Claim C2, as amended. The sequence that \<open>filtrar_licitacoes\<close> returns is the page
  \<open>[offset, offset + limite)\<close> of the filtered working set, not the working set
  (the last conjunct).
  Every record of the returned page is a record of the collection and satisfies every
  present predicate. Every record of the collection that is not in the working set
  before pagination, the set that \<open>total\<close> counts, violates at least one present
  predicate. When \<open>offset = 0\<close> and \<open>total \<le> limite\<close> the returned page is that
  whole working set, and then a record of the collection that is not returned violates
  a present predicate.
\<close>

theorem filtro_correto_e_completo:
  "(\<forall>l \<in> set (fst (filtrar_licitacoes ct R f limite offset)).
       l \<in> set R \<and> (\<forall>p \<in> set (predicados_presentes ct f). p l))
   \<and> (\<forall>l \<in> set R. l \<notin> set (filtrados ct R f) \<longrightarrow> (\<exists>p \<in> set (predicados_presentes ct f). \<not> p l))
   \<and> snd (filtrar_licitacoes ct R f limite offset) = length (filtrados ct R f)
   \<and> (offset = 0 \<and> int (snd (filtrar_licitacoes ct R f limite offset)) \<le> limite \<longrightarrow>
        fst (filtrar_licitacoes ct R f limite offset) = filtrados ct R f)
   \<and> fst (filtrar_licitacoes ct R f limite offset)
       = py_slice (filtrados ct R f) offset (offset + limite)"
proof -
  have pagina: "fst (filtrar_licitacoes ct R f limite offset)
                  = py_slice (filtrados ct R f) offset (offset + limite)"
    by (simp add: filtrar_licitacoes_def Let_def)
  have total: "snd (filtrar_licitacoes ct R f limite offset) = length (filtrados ct R f)"
    by (simp add: filtrar_licitacoes_def Let_def)
  have correto: "l \<in> set R \<and> (\<forall>p \<in> set (predicados_presentes ct f). p l)"
    if "l \<in> set (fst (filtrar_licitacoes ct R f limite offset))" for l
  proof -
    from that have "l \<in> set (filtrados ct R f)"
      using set_py_slice [of "filtrados ct R f"] by (auto simp add: pagina)
    then show ?thesis by (auto simp add: filtrados_filter atende_iff)
  qed
  have completo: "\<exists>p \<in> set (predicados_presentes ct f). \<not> p l"
    if "l \<in> set R" "l \<notin> set (filtrados ct R f)" for l
    using that by (auto simp add: filtrados_filter atende_iff)
  have cobre: "fst (filtrar_licitacoes ct R f limite offset) = filtrados ct R f"
    if "offset = 0" "int (snd (filtrar_licitacoes ct R f limite offset)) \<le> limite"
  proof -
    from that have "0 \<le> limite" by linarith
    then have "py_slice (filtrados ct R f) 0 (0 + limite)
                 = take (nat limite) (drop (nat 0) (filtrados ct R f))"
      by (intro py_slice_take_drop) simp_all
    with that show ?thesis by (simp add: filtrar_licitacoes_def Let_def)
  qed
  from correto completo total cobre pagina show ?thesis by blast
qed

theorem filtro_correto_e_completo_witness:
  "fst (filtrar_licitacoes tabelas_ascii (MOCK_LICITACOES relogio) filtros_uf 100 0)
     = [MOCK_LICITACOES relogio ! 0, MOCK_LICITACOES relogio ! 1]
   \<and> list_all (\<lambda>p. p (MOCK_LICITACOES relogio ! 0)) (predicados_presentes tabelas_ascii filtros_uf)
   \<and> list_all (\<lambda>p. p (MOCK_LICITACOES relogio ! 1)) (predicados_presentes tabelas_ascii filtros_uf)
   \<and> MOCK_LICITACOES relogio ! 2 \<in> set (MOCK_LICITACOES relogio)
   \<and> MOCK_LICITACOES relogio ! 2 \<notin> set (filtrados tabelas_ascii (MOCK_LICITACOES relogio) filtros_uf)
   \<and> list_ex (\<lambda>p. \<not> p (MOCK_LICITACOES relogio ! 2)) (predicados_presentes tabelas_ascii filtros_uf)
   \<and> (0::int) = 0
   \<and> int (snd (filtrar_licitacoes tabelas_ascii (MOCK_LICITACOES relogio) filtros_uf 100 0)) \<le> 100
   \<and> fst (filtrar_licitacoes tabelas_ascii (MOCK_LICITACOES relogio) filtros_uf 100 0)
       = filtrados tabelas_ascii (MOCK_LICITACOES relogio) filtros_uf"
  using filtro_correto_e_completo [of tabelas_ascii "MOCK_LICITACOES relogio" filtros_uf 100 0]
    mock_uf_fora mock_uf_dentro mock_uf_total
  by simp

text \<open>
  The claim as stated fails: with nothing given as criteria, \<open>limite = 1\<close> and
  \<open>offset = 0\<close>, the second mock record is a record of the collection, is not in the
  returned sequence, and satisfies every present predicate (none is present). No city
  and no search text is given, so the case tables are not consulted
  (\<open>filtrados_sem_caixa\<close>).
\<close>

theorem completude_da_pagina_counterexample:
  "MOCK_LICITACOES relogio ! 1 \<in> set (MOCK_LICITACOES relogio)
   \<and> MOCK_LICITACOES relogio ! 1
       \<notin> set (fst (filtrar_licitacoes tabelas_ascii (MOCK_LICITACOES relogio) sem_filtros 1 0))
   \<and> atende tabelas_ascii sem_filtros (MOCK_LICITACOES relogio ! 1)
   \<and> predicados_presentes tabelas_ascii sem_filtros = []"
  by code_simp

section \<open>The order of the narrowing steps\<close>

lemma fold_filter_perm:
  assumes "mset ps = mset qs"
  shows "fold filter ps xs = fold filter qs xs"
proof -
  from assms have "set ps = set qs" by (rule mset_eq_setD)
  then show ?thesis by (simp add: fold_filter_conj list_all_iff)
qed

lemma filtros_dois_presentes: "length (predicados_presentes tabelas_ascii filtros_dois) = 2"
  by (simp add: predicados_presentes_def sem_filtros_def pred_tipos_def pred_status_def
      pred_ufs_def pred_cidades_def pred_valor_min_def pred_valor_max_def
      pred_data_inicio_def pred_data_fim_def pred_texto_def filtros_dois_def)

lemma filtros_dois_resultado:
  "filtrar_licitacoes tabelas_ascii (MOCK_LICITACOES relogio) filtros_dois 100 0
     = ([MOCK_LICITACOES relogio ! 3], 1)"
  by code_simp

lemma filtros_dois_filtrados:
  "filtrados tabelas_ascii (MOCK_LICITACOES relogio) filtros_dois = [MOCK_LICITACOES relogio ! 3]"
  by code_simp

text \<open>
  Claim C7. The present predicates commute: narrowing the collection by them one after
  another in any order (any list \<open>ps\<close> that is a permutation of the present predicates)
  gives the working set that the code computes in its fixed order, hence the same page
  and the same total as \<open>filtrar_licitacoes\<close>.
\<close>

theorem predicados_comutam:
  assumes "mset ps = mset (predicados_presentes ct f)"
  shows "fold filter ps R = filtrados ct R f
         \<and> (py_slice (fold filter ps R) offset (offset + limite), length (fold filter ps R))
             = filtrar_licitacoes ct R f limite offset"
proof -
  have "fold filter ps R = filtrados ct R f"
    using fold_filter_perm [OF assms] by (simp add: filtrados_fold)
  then show ?thesis by (simp add: filtrar_licitacoes_def Let_def)
qed

theorem predicados_comutam_witness:
  "mset (rev (predicados_presentes tabelas_ascii filtros_dois)) = mset (predicados_presentes tabelas_ascii filtros_dois)
   \<and> length (predicados_presentes tabelas_ascii filtros_dois) = 2
   \<and> fold filter (rev (predicados_presentes tabelas_ascii filtros_dois)) (MOCK_LICITACOES relogio)
       = [MOCK_LICITACOES relogio ! 3]
   \<and> (py_slice (fold filter (rev (predicados_presentes tabelas_ascii filtros_dois)) (MOCK_LICITACOES relogio))
          0 (0 + 100),
        length (fold filter (rev (predicados_presentes tabelas_ascii filtros_dois)) (MOCK_LICITACOES relogio)))
       = ([MOCK_LICITACOES relogio ! 3], 1)"
proof -
  have perm: "mset (rev (predicados_presentes tabelas_ascii filtros_dois))
                = mset (predicados_presentes tabelas_ascii filtros_dois)"
    by simp
  show ?thesis
    using perm predicados_comutam [OF perm, of "MOCK_LICITACOES relogio" 0 100]
      filtros_dois_presentes filtros_dois_resultado filtros_dois_filtrados
    by (simp add: py_slice_def slice_bound_def)
qed

section \<open>Records without an estimated value\<close>

lemma filtrados_subset_max:
  "set (filtrados ct R f) \<subseteq> set (passo_valor_max (valor_max f) R)"
  by (auto simp add: filtrados_filter passo_valor_max_pred fold_filter_conj atende_def
      predicados_presentes_def)

lemma sem_valor_ausente: "valor_estimado licitacao_sem_valor = None"
  by (simp add: licitacao_sem_valor_def)

text \<open>
  Claim C8, as amended. A record without \<open>valor_estimado\<close> counts as 0 against a
  minimum bound: it passes the minimum step exactly when \<open>0 \<ge> valor_min\<close>. Against a
  maximum bound it counts as \<open>+\<infinity>\<close> (\<open>float('inf')\<close>), which is above every
  finite bound: it never passes the maximum step, and so it is in no page that
  \<open>filtrar_licitacoes\<close> returns when a maximum bound is given.
\<close>

theorem valor_ausente:
  assumes "valor_estimado l = None"
  shows "(l \<in> set (passo_valor_min (Some m) R) \<longleftrightarrow> l \<in> set R \<and> 0 \<ge> m)
         \<and> l \<notin> set (passo_valor_max (Some m) R)
         \<and> (valor_max f = Some m \<longrightarrow> l \<notin> set (fst (filtrar_licitacoes ct R f limite offset)))"
proof -
  have a: "l \<in> set (passo_valor_min (Some m) R) \<longleftrightarrow> l \<in> set R \<and> 0 \<ge> m"
    using assms by (auto simp add: passo_valor_min_def)
  have b: "l \<notin> set (passo_valor_max (Some m) R)"
    using assms by (auto simp add: passo_valor_max_def)
  have c: "l \<notin> set (fst (filtrar_licitacoes ct R f limite offset))" if "valor_max f = Some m"
  proof
    assume "l \<in> set (fst (filtrar_licitacoes ct R f limite offset))"
    then have "l \<in> set (filtrados ct R f)"
      using set_py_slice [of "filtrados ct R f"] by (auto simp add: filtrar_licitacoes_def Let_def)
    then have "l \<in> set (passo_valor_max (valor_max f) R)"
      using filtrados_subset_max by blast
    with b that show False by simp
  qed
  from a b c show ?thesis by blast
qed

theorem valor_ausente_witness:
  "valor_estimado licitacao_sem_valor = None
   \<and> licitacao_sem_valor \<in> set (passo_valor_min (Some 0) [licitacao_sem_valor])
   \<and> licitacao_sem_valor \<notin> set (passo_valor_min (Some 1000000) [licitacao_sem_valor])
   \<and> licitacao_sem_valor \<notin> set (passo_valor_max (Some 1000000) [licitacao_sem_valor])
   \<and> valor_max (sem_filtros\<lparr>valor_max := Some 1000000\<rparr>) = Some 1000000
   \<and> licitacao_sem_valor \<notin> set (fst (filtrar_licitacoes tabelas_ascii [licitacao_sem_valor]
          (sem_filtros\<lparr>valor_max := Some 1000000\<rparr>) 100 0))"
  using valor_ausente [OF sem_valor_ausente, of 0 "[licitacao_sem_valor]" sem_filtros tabelas_ascii 100 0]
    valor_ausente [OF sem_valor_ausente, of 1000000 "[licitacao_sem_valor]"
      "sem_filtros\<lparr>valor_max := Some 1000000\<rparr>" tabelas_ascii 100 0]
  by (simp add: sem_valor_ausente)

text \<open>
  The claim as stated fails: the first mock record with its \<open>valor_estimado\<close> removed
  does not pass the maximum bound 1000000; the collection holding only that record is
  filtered to the empty list. No city and no search text is given, so the case tables
  are not consulted (\<open>filtrados_sem_caixa\<close>).
\<close>

theorem valor_ausente_passa_no_maximo_counterexample:
  "valor_estimado licitacao_sem_valor = None
   \<and> passo_valor_max (Some 1000000) [licitacao_sem_valor] = []
   \<and> filtrar_licitacoes tabelas_ascii [licitacao_sem_valor] (sem_filtros\<lparr>valor_max := Some 1000000\<rparr>) 100 0
       = ([], 0)"
  by code_simp

section \<open>The search endpoint\<close>

text \<open>
  Claim C10. \<open>POST /licitacoes/buscar\<close> runs the filter engine with \<open>limite = 100\<close>
  and \<open>offset = 0\<close> and does not sort: for every filter document its data are the first
  at most 100 records of the collection that satisfy the criteria, in collection order,
  while \<open>total\<close> counts all of them; with more than 100 matches the data hold exactly 100
  records and \<open>total\<close> is above 100.
\<close>

theorem busca_usa_padroes:
  "buscar_licitacoes_de ct R filtros =
     \<lparr> dados_busca = take 100 (filter (atende ct filtros) R),
       total_busca = length (filter (atende ct filtros) R), filtros_busca = filtros \<rparr>
   \<and> buscar_licitacoes_de ct R filtros =
     \<lparr> dados_busca = fst (filtrar_licitacoes ct R filtros 100 0),
       total_busca = snd (filtrar_licitacoes ct R filtros 100 0), filtros_busca = filtros \<rparr>
   \<and> buscar_licitacoes ct agora filtros = buscar_licitacoes_de ct (MOCK_LICITACOES agora) filtros
   \<and> (100 < length (filter (atende ct filtros) R) \<longrightarrow>
        length (dados_busca (buscar_licitacoes_de ct R filtros)) = 100
        \<and> 100 < total_busca (buscar_licitacoes_de ct R filtros))"
proof -
  have "py_slice xs 0 (0 + 100) = take (nat 100) (drop (nat 0) xs)" for xs :: "licitacao list"
    by (intro py_slice_take_drop) simp_all
  then have fatia: "py_slice xs 0 100 = take 100 xs" for xs :: "licitacao list"
    by simp
  show ?thesis
    by (simp add: buscar_licitacoes_de_def buscar_licitacoes_def limite_padrao_def
        offset_padrao_def filtrar_licitacoes_eq fatia)
qed

theorem busca_usa_padroes_witness:
  "100 < length (filter (atende tabelas_ascii sem_filtros) (replicate 101 (hd (MOCK_LICITACOES relogio))))
   \<and> length (dados_busca (buscar_licitacoes_de tabelas_ascii (replicate 101 (hd (MOCK_LICITACOES relogio)))
        sem_filtros)) = 100
   \<and> total_busca (buscar_licitacoes_de tabelas_ascii (replicate 101 (hd (MOCK_LICITACOES relogio)))
        sem_filtros) = 101"
  using busca_usa_padroes [of tabelas_ascii "replicate 101 (hd (MOCK_LICITACOES relogio))" sem_filtros relogio]
  by (simp add: atende_sem_predicados predicados_sem_filtros)

section \<open>The normaliser\<close>

lemma upper_char_lower_char: "upper_char (lower_char c) = upper_char c"
proof -
  define n where "n = (of_char c :: nat)"
  have c: "c = char_of n" by (simp add: n_def)
  show ?thesis
  proof (cases "65 \<le> n \<and> n \<le> 90")
    case True
    then have "(n + 32) mod 256 = n + 32" by (intro mod_less) arith
    with True show ?thesis
      by (simp add: upper_char_def lower_char_def Let_def n_def [symmetric] c [symmetric])
  next
    case False
    then show ?thesis
      by (auto simp add: upper_char_def lower_char_def Let_def n_def [symmetric])
  qed
qed

lemma upper_char_idem: "upper_char (upper_char c) = upper_char c"
proof -
  define n where "n = (of_char c :: nat)"
  show ?thesis
  proof (cases "97 \<le> n \<and> n \<le> 122")
    case True
    then have "(n - 32) mod 256 = n - 32" by (intro mod_less) arith
    with True show ?thesis
      by (auto simp add: upper_char_def Let_def n_def [symmetric])
  next
    case False
    then show ?thesis
      by (auto simp add: upper_char_def Let_def n_def [symmetric])
  qed
qed

lemma lower_char_ascii: "(of_char c :: nat) < 128 \<Longrightarrow> (of_char (lower_char c) :: nat) < 128"
  by (auto simp add: lower_char_def Let_def)

lemma upper_char_ascii: "(of_char c :: nat) < 128 \<Longrightarrow> (of_char (upper_char c) :: nat) < 128"
  by (auto simp add: upper_char_def Let_def)

lemma is_ascii_lower: "is_ascii s \<Longrightarrow> is_ascii (map lower_char s)"
  by (simp add: is_ascii_def list_all_iff lower_char_ascii)

lemma is_ascii_upper: "is_ascii s \<Longrightarrow> is_ascii (map upper_char s)"
  by (simp add: is_ascii_def list_all_iff upper_char_ascii)

lemma upper_lower: "is_ascii s \<Longrightarrow> upper ct (lower ct s) = upper ct s"
  by (simp add: upper_def lower_def upper_char_lower_char is_ascii_lower)

lemma upper_idem: "is_ascii s \<Longrightarrow> upper ct (upper ct s) = upper ct s"
  by (simp add: upper_def upper_char_idem is_ascii_upper)

lemma upper_ascii_tabelas: "is_ascii s \<Longrightarrow> upper ct s = upper ct' s"
  by (simp add: upper_def)

lemma normalizar_item_relogio:
  "isl (normalizar_item ct t1 t2 item) = isl (normalizar_item ct u1 u2 item)"
  by (simp add: normalizar_item_def split: json.split sum.split)

lemma item_falha_iff: "item_falha ct item \<longleftrightarrow> isl (normalizar_item ct t1 t2 item)"
  unfolding item_falha_def by (rule normalizar_item_relogio)

lemma normalizar_itens_append:
  "normalizar_itens ct agora n (pre @ pos) =
     normalizar_itens ct agora n pre
       @ normalizar_itens ct agora (n + 2 * length (normalizar_itens ct agora n pre)) pos"
  by (induction pre arbitrary: n) (auto split: sum.split)

lemma item_falha_Inl: "normalizar_item ct t1 t2 item = Inl e \<Longrightarrow> item_falha ct item"
  using item_falha_iff [of ct item t1 t2] by simp

lemma item_falha_Inr: "normalizar_item ct t1 t2 item = Inr r \<Longrightarrow> \<not> item_falha ct item"
  using item_falha_iff [of ct item t1 t2] by simp

lemma normalizar_itens_falha:
  "item_falha ct item \<Longrightarrow> normalizar_itens ct agora n (item # itens) = normalizar_itens ct agora n itens"
  using item_falha_Inr [of ct "agora n" "agora (n + 1)" item] by (auto split: sum.split)

lemma normalizar_itens_length:
  "length (normalizar_itens ct agora n itens) = length (sobreviventes ct itens)"
  by (induction itens arbitrary: n)
     (auto simp add: sobreviventes_def split: sum.split dest: item_falha_Inl item_falha_Inr)

lemma normalizar_itens_nth:
  "i < length (sobreviventes ct itens) \<Longrightarrow>
     Inr (normalizar_itens ct agora n itens ! i)
       = normalizar_item ct (agora (n + 2 * i)) (agora (n + 2 * i + 1)) (sobreviventes ct itens ! i)"
proof (induction itens arbitrary: n i)
  case Nil
  then show ?case by (simp add: sobreviventes_def)
next
  case (Cons item itens)
  show ?case
  proof (cases "normalizar_item ct (agora n) (agora (n + 1)) item")
    case (Inl e)
    then have "item_falha ct item" by (rule item_falha_Inl)
    with Cons Inl show ?thesis by (simp add: sobreviventes_def)
  next
    case (Inr r)
    then have ok: "\<not> item_falha ct item" by (rule item_falha_Inr)
    show ?thesis
    proof (cases i)
      case 0
      with Inr ok show ?thesis by (simp add: sobreviventes_def)
    next
      case (Suc j)
      with Cons.prems ok have "j < length (sobreviventes ct itens)"
        by (simp add: sobreviventes_def)
      from Cons.IH [OF this, of "n + 2"] Inr ok Suc show ?thesis
        by (simp add: sobreviventes_def add.assoc)
    qed
  qed
qed


lemma dict_get_ausente: "map_of d k = None \<Longrightarrow> dict_get d k padrao = padrao"
  by (simp add: dict_get_def)

lemma mapear_tipo_vazio: "mapear_tipo_pncp ct (JStr []) = Inr PREGAO"
  by (simp add: mapear_tipo_pncp_def upper_def is_ascii_def mapeamento_tipo_def)

lemma mapear_status_vazio: "mapear_status_pncp ct (JStr []) = Inr ABERTA"
  by (simp add: mapear_status_pncp_def upper_def is_ascii_def mapeamento_status_def)

lemma normalizar_item_padrao:
  assumes "sem_chaves_reconhecidas d"
  shows "normalizar_item ct t1 t2 (JObj d) = Inr (registro_padrao t1 t2)"
  using assms
  by (simp add: sem_chaves_reconhecidas_def chaves_reconhecidas_def normalizar_item_def
      dict_get_ausente mapear_tipo_vazio mapear_status_vazio registro_padrao_def)

lemma mapear_tipo_nao_reconhecido:
  "upper ct s \<notin> fst ` set mapeamento_tipo \<Longrightarrow> mapear_tipo_pncp ct (JStr s) = Inr PREGAO"
  by (simp add: mapear_tipo_pncp_def map_of_eq_None_iff [THEN iffD2])

lemma mapear_status_nao_reconhecido:
  "upper ct s \<notin> fst ` set mapeamento_status \<Longrightarrow> mapear_status_pncp ct (JStr s) = Inr ABERTA"
  by (simp add: mapear_status_pncp_def map_of_eq_None_iff [THEN iffD2])

lemma mapear_tipo_reconhecido:
  assumes "(k, t) \<in> set mapeamento_tipo" and "upper ct s = k"
  shows "mapear_tipo_pncp ct (JStr s) = Inr t"
proof -
  have "distinct (map fst mapeamento_tipo)"
    by (simp add: mapeamento_tipo_def)
  from this assms(1) have "map_of mapeamento_tipo k = Some t"
    by (rule map_of_is_SomeI)
  with assms(2) show ?thesis by (simp add: mapear_tipo_pncp_def)
qed

lemma mapear_status_reconhecido:
  assumes "(k, t) \<in> set mapeamento_status" and "upper ct s = k"
  shows "mapear_status_pncp ct (JStr s) = Inr t"
proof -
  have "distinct (map fst mapeamento_status)"
    by (simp add: mapeamento_status_def)
  from this assms(1) have "map_of mapeamento_status k = Some t"
    by (rule map_of_is_SomeI)
  with assms(2) show ?thesis by (simp add: mapear_status_pncp_def)
qed

lemma mapear_ascii_tabelas:
  "is_ascii s \<Longrightarrow> mapear_tipo_pncp ct (JStr s) = mapear_tipo_pncp ct' (JStr s)"
  "is_ascii s \<Longrightarrow> mapear_status_pncp ct (JStr s) = mapear_status_pncp ct' (JStr s)"
  by (simp_all add: mapear_tipo_pncp_def mapear_status_pncp_def upper_ascii_tabelas [of s ct ct'])

lemma codigos_ascii:
  "list_all is_ascii codigos_tipo" "list_all is_ascii codigos_status"
  by code_simp+

lemma codigos_tipo_ascii:
  "map (\<lambda>c. mapear_tipo_pncp tabelas_ascii (JStr c)) codigos_tipo
     = map Inr [PREGAO, CONCORRENCIA, TOMADA_PRECOS, CONVITE, RDC, CONCURSO, LEILAO, PREGAO, PREGAO]"
  by code_simp

lemma codigos_status_ascii:
  "map (\<lambda>c. mapear_status_pncp tabelas_ascii (JStr c)) codigos_status
     = map Inr [ABERTA, EM_ANDAMENTO, ENCERRADA, SUSPENSA, CANCELADA, ABERTA]"
  by code_simp

lemma codigos_tipo_mapeados:
  "map (\<lambda>c. mapear_tipo_pncp ct (JStr c)) codigos_tipo
     = map Inr [PREGAO, CONCORRENCIA, TOMADA_PRECOS, CONVITE, RDC, CONCURSO, LEILAO, PREGAO, PREGAO]"
proof -
  have "map (\<lambda>c. mapear_tipo_pncp ct (JStr c)) codigos_tipo
          = map (\<lambda>c. mapear_tipo_pncp tabelas_ascii (JStr c)) codigos_tipo"
    using codigos_ascii(1)
    by (intro map_cong refl mapear_ascii_tabelas(1)) (simp add: list_all_iff)
  then show ?thesis by (simp only: codigos_tipo_ascii)
qed

lemma codigos_status_mapeados:
  "map (\<lambda>c. mapear_status_pncp ct (JStr c)) codigos_status
     = map Inr [ABERTA, EM_ANDAMENTO, ENCERRADA, SUSPENSA, CANCELADA, ABERTA]"
proof -
  have "map (\<lambda>c. mapear_status_pncp ct (JStr c)) codigos_status
          = map (\<lambda>c. mapear_status_pncp tabelas_ascii (JStr c)) codigos_status"
    using codigos_ascii(2)
    by (intro map_cong refl mapear_ascii_tabelas(2)) (simp add: list_all_iff)
  then show ?thesis by (simp only: codigos_status_ascii)
qed

text \<open>
  Claim C5. An item that is a dictionary with none of the recognised keys is not
  dropped: it yields one record in which every field has its fallback default, with
  type \<open>pregao\<close> and status \<open>aberta\<close>, and that record stands in the output of
  the batch between the records of the items before and after it. Each lookup reads
  only the upper-cased code: a code whose upper-cased form is a key of the table gives
  that key's enum member, whatever the letter case it was written in; a code whose
  upper-cased form is not a key, and the empty code, give \<open>pregao\<close> and \<open>aberta\<close>.
  For a code of ASCII characters, lowering or raising its case does not change the
  result, and the codes of both tables, written in mixed case, give their members
  whatever the case tables are.
\<close>

theorem normalizacao_com_padroes:
  assumes "sem_chaves_reconhecidas d"
  shows "normalizar_item ct t1 t2 (JObj d) = Inr (registro_padrao t1 t2)
    \<and> map_of (registro_padrao t1 t2) ''tipo'' = Some (VTipo PREGAO)
    \<and> map_of (registro_padrao t1 t2) ''status'' = Some (VStatus ABERTA)
    \<and> normalizar_itens ct agora n (pre @ JObj d # pos) =
         normalizar_itens ct agora n pre
           @ registro_padrao (agora (n + 2 * length (normalizar_itens ct agora n pre)))
               (agora (n + 2 * length (normalizar_itens ct agora n pre) + 1))
           # normalizar_itens ct agora (n + 2 * length (normalizar_itens ct agora n pre) + 2) pos
    \<and> ((k, t) \<in> set mapeamento_tipo \<and> upper ct s = k \<longrightarrow>
          mapear_tipo_pncp ct (JStr s) = Inr t)
    \<and> ((k', t') \<in> set mapeamento_status \<and> upper ct s = k' \<longrightarrow>
          mapear_status_pncp ct (JStr s) = Inr t')
    \<and> (upper ct s = upper ct s' \<longrightarrow>
          mapear_tipo_pncp ct (JStr s) = mapear_tipo_pncp ct (JStr s')
          \<and> mapear_status_pncp ct (JStr s) = mapear_status_pncp ct (JStr s'))
    \<and> (is_ascii s \<longrightarrow>
          upper ct s = map upper_char s
          \<and> lower ct s = map lower_char s
          \<and> mapear_tipo_pncp ct (JStr (lower ct s)) = mapear_tipo_pncp ct (JStr s)
          \<and> mapear_tipo_pncp ct (JStr (upper ct s)) = mapear_tipo_pncp ct (JStr s)
          \<and> mapear_status_pncp ct (JStr (lower ct s)) = mapear_status_pncp ct (JStr s)
          \<and> mapear_status_pncp ct (JStr (upper ct s)) = mapear_status_pncp ct (JStr s))
    \<and> (upper ct s \<notin> fst ` set mapeamento_tipo \<longrightarrow> mapear_tipo_pncp ct (JStr s) = Inr PREGAO)
    \<and> (upper ct s \<notin> fst ` set mapeamento_status \<longrightarrow> mapear_status_pncp ct (JStr s) = Inr ABERTA)
    \<and> mapear_tipo_pncp ct (JStr []) = Inr PREGAO
    \<and> mapear_status_pncp ct (JStr []) = Inr ABERTA
    \<and> map (\<lambda>c. mapear_tipo_pncp ct (JStr c)) codigos_tipo
         = map Inr [PREGAO, CONCORRENCIA, TOMADA_PRECOS, CONVITE, RDC, CONCURSO, LEILAO,
                    PREGAO, PREGAO]
    \<and> map (\<lambda>c. mapear_status_pncp ct (JStr c)) codigos_status
         = map Inr [ABERTA, EM_ANDAMENTO, ENCERRADA, SUSPENSA, CANCELADA, ABERTA]"
proof -
  have item: "normalizar_item ct t1 t2 (JObj d) = Inr (registro_padrao t1 t2)" for t1 t2
    using assms by (rule normalizar_item_padrao)
  have lote: "normalizar_itens ct agora n (pre @ JObj d # pos) =
         normalizar_itens ct agora n pre
           @ registro_padrao (agora (n + 2 * length (normalizar_itens ct agora n pre)))
               (agora (n + 2 * length (normalizar_itens ct agora n pre) + 1))
           # normalizar_itens ct agora (n + 2 * length (normalizar_itens ct agora n pre) + 2) pos"
    by (simp add: normalizar_itens_append [of ct agora n pre] item)
  have caso: "mapear_tipo_pncp ct (JStr s) = mapear_tipo_pncp ct (JStr s')
              \<and> mapear_status_pncp ct (JStr s) = mapear_status_pncp ct (JStr s')"
    if "upper ct s = upper ct s'"
    using that by (simp add: mapear_tipo_pncp_def mapear_status_pncp_def)
  have ascii: "upper ct s = map upper_char s
          \<and> lower ct s = map lower_char s
          \<and> mapear_tipo_pncp ct (JStr (lower ct s)) = mapear_tipo_pncp ct (JStr s)
          \<and> mapear_tipo_pncp ct (JStr (upper ct s)) = mapear_tipo_pncp ct (JStr s)
          \<and> mapear_status_pncp ct (JStr (lower ct s)) = mapear_status_pncp ct (JStr s)
          \<and> mapear_status_pncp ct (JStr (upper ct s)) = mapear_status_pncp ct (JStr s)"
    if "is_ascii s"
    using that upper_lower [OF that, of ct] upper_idem [OF that, of ct]
    by (simp add: mapear_tipo_pncp_def mapear_status_pncp_def upper_def lower_def)
  have campos: "map_of (registro_padrao t1 t2) ''tipo'' = Some (VTipo PREGAO)"
      "map_of (registro_padrao t1 t2) ''status'' = Some (VStatus ABERTA)"
    by (simp_all add: registro_padrao_def)
  have rec: "mapear_tipo_pncp ct (JStr s) = Inr t"
    if "(k, t) \<in> set mapeamento_tipo \<and> upper ct s = k"
    using that mapear_tipo_reconhecido by blast
  have rec': "mapear_status_pncp ct (JStr s) = Inr t'"
    if "(k', t') \<in> set mapeamento_status \<and> upper ct s = k'"
    using that mapear_status_reconhecido by blast
  from item lote caso ascii campos rec rec' mapear_tipo_nao_reconhecido
    mapear_status_nao_reconhecido mapear_tipo_vazio mapear_status_vazio
    codigos_tipo_mapeados codigos_status_mapeados
  show ?thesis by blast
qed

text \<open>
  Claim C6. For a payload whose \<open>data\<close> can be iterated, normalisation returns a
  list whatever the items are. An item whose extraction raises is skipped alone: the
  output is the output of the payload without that item. The output has one record per
  surviving item, and the survivors keep the order of the payload: the \<open>i\<close>-th record
  is the normalisation of the \<open>i\<close>-th surviving item (with the clock readings
  \<open>n + 2i\<close> and \<open>n + 2i + 1\<close>).
\<close>

theorem falha_de_item_nao_derruba_lote:
  assumes "iterar (dict_get d ''data'' (JArr [])) = Inr itens"
  shows "normalizar_dados_pncp ct agora n (JObj d) = Inr (normalizar_itens ct agora n itens)
    \<and> (\<forall>pre item pos. itens = pre @ item # pos \<and> item_falha ct item \<longrightarrow>
          normalizar_itens ct agora n itens = normalizar_itens ct agora n (pre @ pos))
    \<and> (\<forall>item t1 t2. item_falha ct item \<longleftrightarrow> isl (normalizar_item ct t1 t2 item))
    \<and> length (normalizar_itens ct agora n itens) = length (sobreviventes ct itens)
    \<and> subseq (sobreviventes ct itens) itens
    \<and> (\<forall>i < length (sobreviventes ct itens).
          Inr (normalizar_itens ct agora n itens ! i)
            = normalizar_item ct (agora (n + 2 * i)) (agora (n + 2 * i + 1))
                (sobreviventes ct itens ! i))"
proof -
  have lote: "normalizar_dados_pncp ct agora n (JObj d) = Inr (normalizar_itens ct agora n itens)"
    using assms by (simp add: normalizar_dados_pncp_def)
  have pula: "normalizar_itens ct agora n itens = normalizar_itens ct agora n (pre @ pos)"
    if "itens = pre @ item # pos" "item_falha ct item" for pre item pos
    using that
    by (simp add: normalizar_itens_append [of ct agora n pre] normalizar_itens_falha
        del: normalizar_itens.simps)
  have ordem: "subseq (sobreviventes ct itens) itens"
    by (simp add: sobreviventes_def)
  from lote pula ordem item_falha_iff normalizar_itens_length normalizar_itens_nth
  show ?thesis by blast
qed


lemma item_vazio_sem_chaves: "sem_chaves_reconhecidas item_vazio"
  by code_simp

lemma exemplo_mapeamentos:
  "(''LEILAO'', LEILAO) \<in> set mapeamento_tipo
   \<and> upper tabelas_ascii ''Leilao'' = ''LEILAO''
   \<and> (''ENCERRADA'', ENCERRADA) \<in> set mapeamento_status
   \<and> upper tabelas_ascii ''encerrada'' = ''ENCERRADA''
   \<and> is_ascii ''Leilao''
   \<and> lower tabelas_ascii ''Leilao'' = ''leilao''
   \<and> upper tabelas_ascii ''xyz'' \<notin> fst ` set mapeamento_tipo
   \<and> upper tabelas_ascii ''xyz'' \<notin> fst ` set mapeamento_status
   \<and> (''CONVITE'', CONVITE) \<in> set mapeamento_tipo
   \<and> upper tabelas_exemplo convite_sem_ponto = ''CONVITE''"
  by code_simp

lemma exemplo_pre: "length (normalizar_itens tabelas_ascii relogio 0 [item_exemplo, JNum 3]) = 1"
  by code_simp

theorem normalizacao_com_padroes_witness:
  "sem_chaves_reconhecidas item_vazio
   \<and> normalizar_item tabelas_ascii 4 5 (JObj item_vazio) = Inr (registro_padrao 4 5)
   \<and> normalizar_itens tabelas_ascii relogio 0 ([item_exemplo, JNum 3] @ JObj item_vazio # []) =
       normalizar_itens tabelas_ascii relogio 0 [item_exemplo, JNum 3] @ [registro_padrao 2 3]
   \<and> (''LEILAO'', LEILAO) \<in> set mapeamento_tipo
   \<and> upper tabelas_ascii ''Leilao'' = ''LEILAO''
   \<and> mapear_tipo_pncp tabelas_ascii (JStr ''Leilao'') = Inr LEILAO
   \<and> is_ascii ''Leilao''
   \<and> mapear_tipo_pncp tabelas_ascii (JStr (lower tabelas_ascii ''Leilao'')) = Inr LEILAO
   \<and> (''ENCERRADA'', ENCERRADA) \<in> set mapeamento_status
   \<and> upper tabelas_ascii ''encerrada'' = ''ENCERRADA''
   \<and> mapear_status_pncp tabelas_ascii (JStr ''encerrada'') = Inr ENCERRADA
   \<and> upper tabelas_ascii ''xyz'' \<notin> fst ` set mapeamento_tipo
   \<and> mapear_tipo_pncp tabelas_ascii (JStr ''xyz'') = Inr PREGAO
   \<and> upper tabelas_ascii ''xyz'' \<notin> fst ` set mapeamento_status
   \<and> mapear_status_pncp tabelas_ascii (JStr ''xyz'') = Inr ABERTA
   \<and> (''CONVITE'', CONVITE) \<in> set mapeamento_tipo
   \<and> upper tabelas_exemplo convite_sem_ponto = ''CONVITE''
   \<and> mapear_tipo_pncp tabelas_exemplo (JStr convite_sem_ponto) = Inr CONVITE"
proof -
  note a = normalizacao_com_padroes [OF item_vazio_sem_chaves,
      where ct = tabelas_ascii and ?t1.0 = 4 and ?t2.0 = 5 and agora = relogio and n = 0
        and pre = "[item_exemplo, JNum 3]" and pos = "[]"
        and k = "''LEILAO''" and t = LEILAO and s = "''Leilao''" and s' = "''Leilao''"
        and k' = "''ENCERRADA''" and t' = ENCERRADA]
  note b = normalizacao_com_padroes [OF item_vazio_sem_chaves,
      where ct = tabelas_ascii and ?t1.0 = 4 and ?t2.0 = 5 and agora = relogio and n = 0
        and pre = "[item_exemplo, JNum 3]" and pos = "[]"
        and k = "''LEILAO''" and t = LEILAO and s = "''encerrada''" and s' = "''encerrada''"
        and k' = "''ENCERRADA''" and t' = ENCERRADA]
  note c = normalizacao_com_padroes [OF item_vazio_sem_chaves,
      where ct = tabelas_ascii and ?t1.0 = 4 and ?t2.0 = 5 and agora = relogio and n = 0
        and pre = "[item_exemplo, JNum 3]" and pos = "[]"
        and k = "''LEILAO''" and t = LEILAO and s = "''xyz''" and s' = "''xyz''"
        and k' = "''ENCERRADA''" and t' = ENCERRADA]
  note d = normalizacao_com_padroes [OF item_vazio_sem_chaves,
      where ct = tabelas_exemplo and ?t1.0 = 4 and ?t2.0 = 5 and agora = relogio and n = 0
        and pre = "[]" and pos = "[]"
        and k = "''CONVITE''" and t = CONVITE and s = convite_sem_ponto and s' = convite_sem_ponto
        and k' = "''ENCERRADA''" and t' = ENCERRADA]
  note ex = exemplo_mapeamentos
  from a have item: "normalizar_item tabelas_ascii 4 5 (JObj item_vazio) = Inr (registro_padrao 4 5)"
    by (rule conjunct1)
  from a have "normalizar_itens tabelas_ascii relogio 0 ([item_exemplo, JNum 3] @ JObj item_vazio # []) =
         normalizar_itens tabelas_ascii relogio 0 [item_exemplo, JNum 3]
           @ registro_padrao
               (relogio (0 + 2 * length (normalizar_itens tabelas_ascii relogio 0 [item_exemplo, JNum 3])))
               (relogio (0 + 2 * length (normalizar_itens tabelas_ascii relogio 0 [item_exemplo, JNum 3]) + 1))
           # normalizar_itens tabelas_ascii relogio
               (0 + 2 * length (normalizar_itens tabelas_ascii relogio 0 [item_exemplo, JNum 3]) + 2) []"
    by blast
  then have lote: "normalizar_itens tabelas_ascii relogio 0 ([item_exemplo, JNum 3] @ JObj item_vazio # []) =
       normalizar_itens tabelas_ascii relogio 0 [item_exemplo, JNum 3] @ [registro_padrao 2 3]"
    unfolding exemplo_pre
    by (simp add: relogio_def numeral_2_eq_2 numeral_3_eq_3 del: normalizar_itens.simps(2))
  from a ex have leilao: "mapear_tipo_pncp tabelas_ascii (JStr ''Leilao'') = Inr LEILAO"
    by blast
  from a ex have "mapear_tipo_pncp tabelas_ascii (JStr (lower tabelas_ascii ''Leilao''))
      = mapear_tipo_pncp tabelas_ascii (JStr ''Leilao'')"
    by blast
  with leilao have minusc:
    "mapear_tipo_pncp tabelas_ascii (JStr (lower tabelas_ascii ''Leilao'')) = Inr LEILAO"
    by (simp only:)
  from b ex have encerrada: "mapear_status_pncp tabelas_ascii (JStr ''encerrada'') = Inr ENCERRADA"
    by blast
  from c ex have xyz: "mapear_tipo_pncp tabelas_ascii (JStr ''xyz'') = Inr PREGAO"
      "mapear_status_pncp tabelas_ascii (JStr ''xyz'') = Inr ABERTA"
    by blast+
  from d ex have convite: "mapear_tipo_pncp tabelas_exemplo (JStr convite_sem_ponto) = Inr CONVITE"
    by blast
  from item lote leilao minusc encerrada xyz convite item_vazio_sem_chaves ex
  show ?thesis by blast
qed

lemma exemplo_iterar:
  "iterar (dict_get payload_exemplo ''data'' (JArr [])) = Inr [item_exemplo, JNum 3, JObj item_vazio]"
  by code_simp

lemma exemplo_falha: "item_falha tabelas_ascii (JNum 3)"
  by code_simp

lemma exemplo_sobreviventes:
  "sobreviventes tabelas_ascii [item_exemplo, JNum 3, JObj item_vazio] = [item_exemplo, JObj item_vazio]"
  by code_simp

lemma exemplo_segundo:
  "normalizar_item tabelas_ascii (relogio (0 + 2 * 1)) (relogio (0 + 2 * 1 + 1)) (JObj item_vazio)
     = Inr (registro_padrao 2 3)"
  by code_simp

theorem falha_de_item_nao_derruba_lote_witness:
  "iterar (dict_get payload_exemplo ''data'' (JArr [])) = Inr [item_exemplo, JNum 3, JObj item_vazio]
   \<and> item_falha tabelas_ascii (JNum 3)
   \<and> normalizar_dados_pncp tabelas_ascii relogio 0 (JObj payload_exemplo)
       = Inr (normalizar_itens tabelas_ascii relogio 0 ([item_exemplo] @ [JObj item_vazio]))
   \<and> sobreviventes tabelas_ascii [item_exemplo, JNum 3, JObj item_vazio] = [item_exemplo, JObj item_vazio]
   \<and> length (normalizar_itens tabelas_ascii relogio 0 [item_exemplo, JNum 3, JObj item_vazio]) = 2
   \<and> (1::nat) < 2
   \<and> normalizar_itens tabelas_ascii relogio 0 [item_exemplo, JNum 3, JObj item_vazio] ! 1 = registro_padrao 2 3"
proof -
  note t = falha_de_item_nao_derruba_lote [OF exemplo_iterar, of tabelas_ascii relogio 0]
  from t have lote: "normalizar_dados_pncp tabelas_ascii relogio 0 (JObj payload_exemplo)
      = Inr (normalizar_itens tabelas_ascii relogio 0 [item_exemplo, JNum 3, JObj item_vazio])"
    by blast
  from t have "[item_exemplo, JNum 3, JObj item_vazio] = [item_exemplo] @ JNum 3 # [JObj item_vazio]
      \<and> item_falha tabelas_ascii (JNum 3) \<longrightarrow>
        normalizar_itens tabelas_ascii relogio 0 [item_exemplo, JNum 3, JObj item_vazio]
          = normalizar_itens tabelas_ascii relogio 0 ([item_exemplo] @ [JObj item_vazio])"
    by blast
  then have pula: "normalizar_itens tabelas_ascii relogio 0 [item_exemplo, JNum 3, JObj item_vazio]
          = normalizar_itens tabelas_ascii relogio 0 ([item_exemplo] @ [JObj item_vazio])"
    using exemplo_falha by simp
  from t have len: "length (normalizar_itens tabelas_ascii relogio 0 [item_exemplo, JNum 3, JObj item_vazio])
      = length (sobreviventes tabelas_ascii [item_exemplo, JNum 3, JObj item_vazio])"
    by blast
  from t have "1 < length (sobreviventes tabelas_ascii [item_exemplo, JNum 3, JObj item_vazio]) \<longrightarrow>
      Inr (normalizar_itens tabelas_ascii relogio 0 [item_exemplo, JNum 3, JObj item_vazio] ! 1)
        = normalizar_item tabelas_ascii (relogio (0 + 2 * 1)) (relogio (0 + 2 * 1 + 1))
            (sobreviventes tabelas_ascii [item_exemplo, JNum 3, JObj item_vazio] ! 1)"
    by blast
  then have seg: "normalizar_itens tabelas_ascii relogio 0 [item_exemplo, JNum 3, JObj item_vazio] ! 1
      = registro_padrao 2 3"
    using exemplo_segundo by (simp add: exemplo_sobreviventes)
  from lote pula len seg exemplo_iterar exemplo_falha exemplo_sobreviventes
  show ?thesis by simp
qed

section \<open>Statistics\<close>

lemma contar_geral:
  "contar chave d ls k =
     (if k \<in> chave ` set ls
      then Some ((case d k of None \<Rightarrow> 0 | Some c \<Rightarrow> c) + count_list (map chave ls) k)
      else d k)"
  by (induction ls arbitrary: d) (auto split: option.splits)

lemma contar_vazio:
  "contar chave Map.empty ls k =
     (if k \<in> chave ` set ls then Some (count_list (map chave ls) k) else None)"
  by (simp add: contar_geral)

lemma mock_status:
  "distribuicao_por_status (obter_estatisticas agora) =
     [''aberta'' \<mapsto> 3, ''em_andamento'' \<mapsto> 1, ''encerrada'' \<mapsto> 1]"
  by (auto simp add: obter_estatisticas_def estatisticas_de_def MOCK_LICITACOES_def Let_def
      fun_eq_iff)

lemma mock_soma:
  "valor_total_estimado (obter_estatisticas agora) = 18950000
   \<and> total_licitacoes (obter_estatisticas agora) = 5"
  by (simp add: obter_estatisticas_def estatisticas_de_def MOCK_LICITACOES_def Let_def)

lemma mock_tipos_observados:
  "''pregao'' \<in> (\<lambda>l. TipoLicitacao_value (tipo l)) ` set (MOCK_LICITACOES relogio)
   \<and> count_list (map (\<lambda>l. TipoLicitacao_value (tipo l)) (MOCK_LICITACOES relogio)) ''pregao'' = 2
   \<and> ''leilao'' \<notin> (\<lambda>l. TipoLicitacao_value (tipo l)) ` set (MOCK_LICITACOES relogio)"
  by (simp add: MOCK_LICITACOES_def)

text \<open>
  Claim C9. On the mock collection the statistics report 5 records, a total estimated
  value of 18950000, and the status counts 3 for \<open>aberta\<close>, 1 for \<open>em_andamento\<close>
  and 1 for \<open>encerrada\<close>, with no other status. For every collection, each grouped
  count (by type, by status, by region) maps a value that occurs in the collection to
  the number of its occurrences and has no entry for a value that does not occur.
\<close>

theorem estatisticas_corretas:
  "total_licitacoes (obter_estatisticas agora) = 5
   \<and> valor_total_estimado (obter_estatisticas agora) = 18950000
   \<and> distribuicao_por_status (obter_estatisticas agora) =
       [''aberta'' \<mapsto> 3, ''em_andamento'' \<mapsto> 1, ''encerrada'' \<mapsto> 1]
   \<and> obter_estatisticas agora = estatisticas_de (MOCK_LICITACOES agora)
   \<and> distribuicao_por_tipo (estatisticas_de R) k =
       (if k \<in> (\<lambda>l. TipoLicitacao_value (tipo l)) ` set R
        then Some (count_list (map (\<lambda>l. TipoLicitacao_value (tipo l)) R) k) else None)
   \<and> distribuicao_por_status (estatisticas_de R) k =
       (if k \<in> (\<lambda>l. StatusLicitacao_value (status l)) ` set R
        then Some (count_list (map (\<lambda>l. StatusLicitacao_value (status l)) R) k) else None)
   \<and> distribuicao_por_uf (estatisticas_de R) k =
       (if k \<in> (\<lambda>l. UF_value (uf l)) ` set R
        then Some (count_list (map (\<lambda>l. UF_value (uf l)) R) k) else None)
   \<and> total_licitacoes (estatisticas_de R) = length R"
proof -
  have geral:
    "distribuicao_por_tipo (estatisticas_de R) k =
       (if k \<in> (\<lambda>l. TipoLicitacao_value (tipo l)) ` set R
        then Some (count_list (map (\<lambda>l. TipoLicitacao_value (tipo l)) R) k) else None)"
    "distribuicao_por_status (estatisticas_de R) k =
       (if k \<in> (\<lambda>l. StatusLicitacao_value (status l)) ` set R
        then Some (count_list (map (\<lambda>l. StatusLicitacao_value (status l)) R) k) else None)"
    "distribuicao_por_uf (estatisticas_de R) k =
       (if k \<in> (\<lambda>l. UF_value (uf l)) ` set R
        then Some (count_list (map (\<lambda>l. UF_value (uf l)) R) k) else None)"
    "total_licitacoes (estatisticas_de R) = length R"
    unfolding estatisticas_de_def Let_def by (simp_all only: estatisticas.simps contar_vazio)
  have def: "obter_estatisticas agora = estatisticas_de (MOCK_LICITACOES agora)"
    by (simp add: obter_estatisticas_def)
  from geral def mock_status mock_soma show ?thesis by blast
qed

theorem estatisticas_corretas_witness:
  "''pregao'' \<in> (\<lambda>l. TipoLicitacao_value (tipo l)) ` set (MOCK_LICITACOES relogio)
   \<and> distribuicao_por_tipo (estatisticas_de (MOCK_LICITACOES relogio)) ''pregao'' = Some 2
   \<and> ''leilao'' \<notin> (\<lambda>l. TipoLicitacao_value (tipo l)) ` set (MOCK_LICITACOES relogio)
   \<and> distribuicao_por_tipo (estatisticas_de (MOCK_LICITACOES relogio)) ''leilao'' = None
   \<and> distribuicao_por_status (obter_estatisticas relogio) ''aberta'' = Some 3
   \<and> distribuicao_por_status (obter_estatisticas relogio) ''suspensa'' = None"
  using estatisticas_corretas [of relogio "MOCK_LICITACOES relogio" "''pregao''"]
    estatisticas_corretas [of relogio "MOCK_LICITACOES relogio" "''leilao''"]
    mock_tipos_observados
  by simp

section \<open>Sorting and pagination in the listing endpoint\<close>

text \<open>
  Claim C1. The specification asks for the page to be cut from the ordered filtered
  subset. The handler of \<open>GET /licitacoes\<close> does the reverse: \<open>filtrar_licitacoes\<close>
  has already cut the page when the handler sorts, so only the page is ordered. On the
  mock collection with nothing given as criteria, \<open>limite = 2\<close>, \<open>offset = 0\<close> and
  ascending \<open>data_abertura\<close>, the handler returns the records 2 and 1 (the first two
  of the collection, ordered), where the specified page holds the records 5 and 2 (the
  two earliest of the collection).
\<close>

theorem ordenacao_apos_paginacao:
  "map id_licitacao
     (dados (obter_licitacoes ct relogio sem_filtros 2 0 (Some ''data_abertura'') False)) = [2, 1]
   \<and> map id_licitacao
       (pagina_especificada ct (MOCK_LICITACOES relogio) sem_filtros 2 0
          (Some ''data_abertura'') False) = [5, 2]
   \<and> dados (obter_licitacoes_de ct R f limite offset ordenar_por ordem_desc)
       = ordenar ordenar_por ordem_desc (py_slice (filtrados ct R f) offset (offset + limite))"
proof -
  have a: "map id_licitacao
     (dados (obter_licitacoes ct relogio sem_filtros 2 0 (Some ''data_abertura'') False)) = [2, 1]"
    by code_simp
  have b: "map id_licitacao
       (pagina_especificada ct (MOCK_LICITACOES relogio) sem_filtros 2 0
          (Some ''data_abertura'') False) = [5, 2]"
    by code_simp
  have c: "dados (obter_licitacoes_de ct R f limite offset ordenar_por ordem_desc)
       = ordenar ordenar_por ordem_desc (py_slice (filtrados ct R f) offset (offset + limite))"
    by (simp add: obter_licitacoes_de_def filtrar_licitacoes_def Let_def)
  from a b c show ?thesis by blast
qed

end
